theory Spec2Isabelle
  imports Complex_Main
begin

section \<open>Values shared by the whole model\<close>

text \<open>
  The module \<^verbatim>\<open>mpld3/_objects.py\<close> turns a matplotlib figure into a page of
  HTML, CSS and JavaScript for d3.js.  Python floats are idealised as reals; no
  property below depends on rounding.
\<close>

datatype py_error = AttributeError | IndexError

text \<open>A value handed to \<^verbatim>\<open>str.format\<close>.  \<^verbatim>\<open>None\<close> is formatted like any other value.\<close>

datatype pyval = PyStr string | PyFloat real | PyInt int | PyNone

section \<open>The matplotlib objects that are read\<close>

text \<open>
  Only the attributes and getters that \<^verbatim>\<open>_objects.py\<close> touches are kept.
  A colour is whatever matplotlib accepts; it is only ever passed to
  \<^verbatim>\<open>color_to_hex\<close>.
\<close>

datatype mpl_color = ColorName string | ColorRGB real real real

record mpl_line =
  get_linestyle :: "string option"
  get_marker :: "string option"
  get_xydata :: "(real \<times> real) list"
  get_alpha :: "real option"
  get_color :: mpl_color
  get_linewidth :: real
  get_markersize :: real
  get_markerfacecolor :: mpl_color
  get_markeredgecolor :: mpl_color
  get_markeredgewidth :: real

record mpl_text =
  oid :: nat
  get_text :: string
  get_text_color :: mpl_color
  get_size :: real
  get_rotation :: real

text \<open>
  \<^verbatim>\<open>oid\<close> is the identity of the Python object, read by the test
  \<^verbatim>\<open>self.text is self.ax.yaxis.label\<close>.  The transform of a text is only compared in a
  branch whose body is \<^verbatim>\<open>pass\<close>, and is left out.
\<close>

record mpl_axis =
  label :: mpl_text
  gridOnMajor :: bool
  get_gridlines :: "mpl_line list"
  get_ticklabels :: "mpl_text list"

text \<open>A child of an axes that is only counted, never drawn.\<close>

datatype mpl_artist = Artist string

record mpl_axes =
  ax_lines :: "mpl_line list"
  ax_texts :: "mpl_text list"
  xaxis :: mpl_axis
  yaxis :: mpl_axis
  title :: mpl_text
  images :: "mpl_artist list"
  collections :: "mpl_artist list"
  containers :: "mpl_artist list"
  artists :: "mpl_artist list"
  patches :: "mpl_artist list"
  tables :: "mpl_artist list"
  legend :: "mpl_artist option"
  get_xlim :: "real \<times> real"
  get_ylim :: "real \<times> real"
  bounds :: "real \<times> real \<times> real \<times> real"

record mpl_figure =
  fig_axes :: "mpl_axes list"
  get_figwidth :: real
  get_figheight :: real
  dpi :: real

text \<open>
  The four helpers imported from \<^verbatim>\<open>._utils\<close> are not part of this file; they are
  taken as parameters.
\<close>

record utils =
  get_text_coordinates :: "mpl_text \<Rightarrow> real \<times> real"
  color_to_hex :: "mpl_color \<Rightarrow> string"
  get_dasharray :: "mpl_line \<Rightarrow> string"
  get_d3_shape_for_marker :: "string option \<Rightarrow> string"

section \<open>The generated text\<close>

text \<open>
  The templates are Python format strings.  Their text is kept as a small syntax
  tree so that what a template writes can be inspected: a CSS rule is a selector
  with its declarations, a JavaScript statement is a variable, an expression or a
  function, and an expression is verbatim text, a formatted Python value, or a
  method call \<^verbatim>\<open>receiver.method(args)\<close>, an application \<^verbatim>\<open>f(args)\<close> or a function
  literal whose body returns (\<^verbatim>\<open>JFunRet\<close>) or only evaluates (\<^verbatim>\<open>JFunDo\<close>) one
  expression.  White space and comments are dropped, so
  \<^verbatim>\<open>+=\<close> on strings and \<^verbatim>\<open>'\n'.join\<close> both become concatenation of lists.
\<close>

datatype tok = Lit string | Fmt pyval

datatype css = Rule (selector: string) (decls: "(string \<times> tok list) list")

datatype js =
    JRaw string
  | JVal pyval
  | JStr "tok list"
  | JData "(real \<times> real) list"
  | JArr "js list"
  | JBin js string js
  | JCall js string "js list"
  | JApp js "js list"
  | JFunRet "string list" js
  | JFunDo "string list" js

datatype stmt =
    SVar string js
  | SExpr js
  | SReturn js
  | SFunc string "string list" "stmt list"
  | SVarFunc string "string list" "stmt list"
  | SAssignFunc string "string list" "stmt list"

abbreviation JS :: "string \<Rightarrow> js" where
  "JS s \<equiv> JStr [Lit s]"

text \<open>A chain \<^verbatim>\<open>r.m1(a1).m2(a2)...\<close> written as the receiver and the list of calls.\<close>

definition chain :: "js \<Rightarrow> (string \<times> js list) list \<Rightarrow> js" where
  "chain r ms = foldl (\<lambda>e (m, as). JCall e m as) r ms"

text \<open>Every method call of an expression, inner ones first, with its arguments.\<close>

fun calls :: "js \<Rightarrow> (string \<times> js list) list" where
  "calls (JCall r m as) = calls r @ concat (map calls as) @ [(m, as)]"
| "calls (JBin a _ b) = calls a @ calls b"
| "calls (JArr xs) = concat (map calls xs)"
| "calls (JApp f as) = calls f @ concat (map calls as)"
| "calls (JFunRet _ e) = calls e"
| "calls (JFunDo _ e) = calls e"
| "calls _ = []"

fun stmt_calls :: "stmt \<Rightarrow> (string \<times> js list) list" where
  "stmt_calls (SVar _ e) = calls e"
| "stmt_calls (SExpr e) = calls e"
| "stmt_calls (SReturn e) = calls e"
| "stmt_calls (SFunc _ _ b) = concat (map stmt_calls b)"
| "stmt_calls (SVarFunc _ _ b) = concat (map stmt_calls b)"
| "stmt_calls (SAssignFunc _ _ b) = concat (map stmt_calls b)"

text \<open>The names a statement, and a list of statements, binds or rebinds.\<close>

fun binds :: "stmt \<Rightarrow> string list" where
  "binds (SVar x _) = [x]"
| "binds (SFunc x _ _) = [x]"
| "binds (SVarFunc x _ _) = [x]"
| "binds (SAssignFunc x _ _) = [x]"
| "binds _ = []"

definition bound_names :: "stmt list \<Rightarrow> string list" where
  "bound_names out = concat (map binds out)"

text \<open>
  Every expression that occurs in an expression, itself included, and every
  expression that occurs in a statement, the bodies of functions included.  Nothing
  of the tree is skipped, so what is not in these lists is not in the script.
\<close>

fun subexprs :: "js \<Rightarrow> js list" where
  "subexprs (JArr xs) = JArr xs # concat (map subexprs xs)"
| "subexprs (JBin a op b) = JBin a op b # subexprs a @ subexprs b"
| "subexprs (JCall r m as) = JCall r m as # subexprs r @ concat (map subexprs as)"
| "subexprs (JApp f as) = JApp f as # subexprs f @ concat (map subexprs as)"
| "subexprs (JFunRet ps e) = JFunRet ps e # subexprs e"
| "subexprs (JFunDo ps e) = JFunDo ps e # subexprs e"
| "subexprs e = [e]"

fun stmt_exprs :: "stmt \<Rightarrow> js list" where
  "stmt_exprs (SVar _ e) = subexprs e"
| "stmt_exprs (SExpr e) = subexprs e"
| "stmt_exprs (SReturn e) = subexprs e"
| "stmt_exprs (SFunc _ _ b) = concat (map stmt_exprs b)"
| "stmt_exprs (SVarFunc _ _ b) = concat (map stmt_exprs b)"
| "stmt_exprs (SAssignFunc _ _ b) = concat (map stmt_exprs b)"

text \<open>
  The binary operators a script uses (an assignment would be the operator \<^verbatim>\<open>=\<close>), the
  pieces of verbatim text it contains, and the functions it applies.
\<close>

definition operators :: "stmt list \<Rightarrow> string list" where
  "operators out = [op. JBin a op b \<leftarrow> concat (map stmt_exprs out)]"

definition raw_texts :: "stmt list \<Rightarrow> string list" where
  "raw_texts out = [s. JRaw s \<leftarrow> concat (map stmt_exprs out)]"

definition applied :: "stmt list \<Rightarrow> js list" where
  "applied out = [f. JApp f as \<leftarrow> concat (map stmt_exprs out)]"

section \<open>D3Base: identifiers found through the parent\<close>

text \<open>
  An object carries its own \<^verbatim>\<open>_figid\<close> and \<^verbatim>\<open>_axid\<close> when it has set them, and its
  parent.  The properties \<^verbatim>\<open>figid\<close> and \<^verbatim>\<open>axid\<close> return the object's own attribute,
  else ask the parent, else raise \<^verbatim>\<open>AttributeError\<close>.
\<close>

datatype d3base = D3Base (own_figid: "string option") (own_axid: "string option")
  (d3_parent: "d3base option")

fun D3Base_figid :: "d3base \<Rightarrow> py_error + string" where
  "D3Base_figid (D3Base (Some f) _ _) = Inr f"
| "D3Base_figid (D3Base None _ (Some p)) = D3Base_figid p"
| "D3Base_figid (D3Base None _ None) = Inl AttributeError"

fun D3Base_axid :: "d3base \<Rightarrow> py_error + string" where
  "D3Base_axid (D3Base _ (Some a) _) = Inr a"
| "D3Base_axid (D3Base _ None (Some p)) = D3Base_axid p"
| "D3Base_axid (D3Base _ None None) = Inl AttributeError"

text \<open>Sequencing of calls that may raise.\<close>

definition bind :: "py_error + 'a \<Rightarrow> ('a \<Rightarrow> py_error + 'b) \<Rightarrow> py_error + 'b" where
  "bind r f = (case r of Inl e \<Rightarrow> Inl e | Inr v \<Rightarrow> f v)"

fun mapM :: "('a \<Rightarrow> py_error + 'b) \<Rightarrow> 'a list \<Rightarrow> py_error + 'b list" where
  "mapM f [] = Inr []"
| "mapM f (x # xs) = bind (f x) (\<lambda>y. bind (mapM f xs) (\<lambda>ys. Inr (y # ys)))"

text \<open>\<^verbatim>\<open>str(i)\<close> on a non-negative integer: its decimal digits.\<close>

definition digit :: "nat \<Rightarrow> char" where
  "digit d = ''0123456789'' ! d"

fun str :: "nat \<Rightarrow> string" where
  "str n = (if n < 10 then [digit n] else str (n div 10) @ [digit (n mod 10)])"

declare str.simps [simp del]

definition py_float_or_none :: "real option \<Rightarrow> pyval" where
  "py_float_or_none a = (case a of None \<Rightarrow> PyNone | Some x \<Rightarrow> PyFloat x)"

section \<open>D3Grid\<close>

record D3Grid =
  grid_base :: d3base
  grid_ax :: mpl_axes

definition D3Grid_init :: "d3base \<Rightarrow> mpl_axes \<Rightarrow> D3Grid" where
  "D3Grid_init parent ax = \<lparr> grid_base = D3Base None None (Some parent), grid_ax = ax \<rparr>"

definition D3Grid_STYLE :: "string \<Rightarrow> string \<Rightarrow> string \<Rightarrow> pyval \<Rightarrow> css list" where
  "D3Grid_STYLE figid color dasharray alpha =
    [Rule (''div#figure'' @ figid @ '' .grid .tick'')
       [(''stroke'', [Lit color]),
        (''stroke-dasharray'', [Lit dasharray]),
        (''stroke-opacity'', [Fmt alpha])],
     Rule (''div#figure'' @ figid @ '' .grid path'')
       [(''stroke-width'', [Lit ''0''])]]"

text \<open>
  The axis generator with ticks as long as the axes, the argument of \<^verbatim>\<open>.call\<close> in
  the four grid templates:
  \<^verbatim>\<open>create_xAxis_{axid}().tickSize(-(height_{axid}), 0, 0).tickFormat("")\<close>.
\<close>

definition grid_axis :: "string \<Rightarrow> string \<Rightarrow> js" where
  "grid_axis factory extent =
     chain (JRaw (factory @ ''()''))
       [(''tickSize'', [JRaw (''-('' @ extent @ '')''), JRaw ''0'', JRaw ''0'']),
        (''tickFormat'', [JS []])]"

definition XGRID_TEMPLATE :: "string \<Rightarrow> stmt list" where
  "XGRID_TEMPLATE axid =
    [SExpr (chain (JRaw (''axes_'' @ axid))
       [(''append'', [JS ''g'']),
        (''attr'', [JS ''class'', JS (''axes'' @ axid @ '' x grid'')]),
        (''attr'', [JS ''transform'',
           JBin (JBin (JS ''translate(0,'') ''+'' (JRaw (''(height_'' @ axid @ '')'')))
             ''+'' (JS '')'')]),
        (''call'', [grid_axis (''create_xAxis_'' @ axid) (''height_'' @ axid)])])]"

definition YGRID_TEMPLATE :: "string \<Rightarrow> stmt list" where
  "YGRID_TEMPLATE axid =
    [SExpr (chain (JRaw (''axes_'' @ axid))
       [(''append'', [JS ''g'']),
        (''attr'', [JS ''class'', JS (''axes'' @ axid @ '' y grid'')]),
        (''call'', [grid_axis (''create_yAxis_'' @ axid) (''width_'' @ axid)])])]"

definition XZOOM :: "string \<Rightarrow> stmt list" where
  "XZOOM axid =
    [SExpr (chain (JRaw (''axes_'' @ axid))
       [(''select'', [JS ''.x.grid'']),
        (''call'', [grid_axis (''create_xAxis_'' @ axid) (''height_'' @ axid)])])]"

definition YZOOM :: "string \<Rightarrow> stmt list" where
  "YZOOM axid =
    [SExpr (chain (JRaw (''axes_'' @ axid))
       [(''select'', [JS ''.y.grid'']),
        (''call'', [grid_axis (''create_yAxis_'' @ axid) (''width_'' @ axid)])])]"

text \<open>
  \<^verbatim>\<open>self.axid\<close> is only evaluated inside a branch that is taken, so a grid with both
  flags off never looks its identifier up.
\<close>

definition D3Grid_zoom :: "D3Grid \<Rightarrow> py_error + stmt list" where
  "D3Grid_zoom self =
     bind (if gridOnMajor (xaxis (grid_ax self))
           then bind (D3Base_axid (grid_base self)) (\<lambda>a. Inr (XZOOM a)) else Inr [])
       (\<lambda>rx. bind (if gridOnMajor (yaxis (grid_ax self))
                   then bind (D3Base_axid (grid_base self)) (\<lambda>a. Inr (YZOOM a)) else Inr [])
          (\<lambda>ry. Inr (rx @ ry)))"

definition D3Grid_html :: "D3Grid \<Rightarrow> py_error + stmt list" where
  "D3Grid_html self =
     bind (if gridOnMajor (xaxis (grid_ax self))
           then bind (D3Base_axid (grid_base self)) (\<lambda>a. Inr (XGRID_TEMPLATE a)) else Inr [])
       (\<lambda>rx. bind (if gridOnMajor (yaxis (grid_ax self))
                   then bind (D3Base_axid (grid_base self)) (\<lambda>a. Inr (YGRID_TEMPLATE a)) else Inr [])
          (\<lambda>ry. Inr (rx @ ry)))"

text \<open>
  \<^verbatim>\<open>gridlines[0]\<close> is read before anything else; on an empty list Python raises
  \<^verbatim>\<open>IndexError\<close>.
\<close>

definition D3Grid_style :: "utils \<Rightarrow> D3Grid \<Rightarrow> py_error + css list" where
  "D3Grid_style u self =
     (case get_gridlines (xaxis (grid_ax self)) @ get_gridlines (yaxis (grid_ax self)) of
        [] \<Rightarrow> Inl IndexError
      | g0 # _ \<Rightarrow>
          bind (D3Base_figid (grid_base self))
            (\<lambda>f. Inr (D3Grid_STYLE f (color_to_hex u (get_color g0)) (get_dasharray u g0)
                        (py_float_or_none (get_alpha g0)))))"

section \<open>D3Line2D\<close>

record D3Line2D =
  line_base :: d3base
  line :: mpl_line
  lineid :: string

text \<open>
  \<^verbatim>\<open>"{0}{1}".format(self.axid, i)\<close>; the index defaults to the empty string.
\<close>

definition D3Line2D_init :: "d3base \<Rightarrow> mpl_line \<Rightarrow> nat option \<Rightarrow> py_error + D3Line2D" where
  "D3Line2D_init parent l i =
     bind (D3Base_axid (D3Base None None (Some parent)))
       (\<lambda>a. Inr \<lparr> line_base = D3Base None None (Some parent), line = l,
                  lineid = a @ (case i of None \<Rightarrow> [] | Some n \<Rightarrow> str n) \<rparr>)"

text \<open>
  \<^verbatim>\<open>self.line.get_linestyle() not in ['', ' ', 'None', 'none', None]\<close> and the same
  test on \<^verbatim>\<open>get_marker()\<close>.  Python's \<^verbatim>\<open>in\<close> compares with \<^verbatim>\<open>==\<close>, which on
  strings is equality of the characters.
\<close>

definition absent_tokens :: "string option list" where
  "absent_tokens = [Some [], Some '' '', Some ''None'', Some ''none'', None]"

definition has_line :: "D3Line2D \<Rightarrow> bool" where
  "has_line self \<longleftrightarrow> get_linestyle (line self) \<notin> set absent_tokens"

definition has_points :: "D3Line2D \<Rightarrow> bool" where
  "has_points self \<longleftrightarrow> get_marker (line self) \<notin> set absent_tokens"

definition example_line :: mpl_line where
  "example_line = \<lparr> get_linestyle = Some ''-'', get_marker = None,
     get_xydata = [(0, 0), (1/2, 1/2), (1, 1)], get_alpha = None,
     get_color = ColorName ''b'', get_linewidth = 1, get_markersize = 6,
     get_markerfacecolor = ColorName ''b'', get_markeredgecolor = ColorName ''k'',
     get_markeredgewidth = 1/2 \<rparr>"

text \<open>
  The callback of both point templates:
  \<^verbatim>\<open>function(d) { return "translate(" + x_{axid}(d[0]) + "," + y_{axid}(d[1]) + ")"; }\<close>.
\<close>

definition translate_fn :: "string \<Rightarrow> js" where
  "translate_fn axid =
     JFunRet [''d'']
       (JBin (JBin (JBin (JBin (JS ''translate('') ''+''
                            (JApp (JRaw (''x_'' @ axid)) [JRaw ''d[0]'']))
                      ''+'' (JS '',''))
                ''+'' (JApp (JRaw (''y_'' @ axid)) [JRaw ''d[1]'']))
          ''+'' (JS '')''))"

definition DATA_TEMPLATE :: "string \<Rightarrow> (real \<times> real) list \<Rightarrow> stmt list" where
  "DATA_TEMPLATE lid data = [SVar (''data_'' @ lid) (JData data)]"

definition D3Line2D_STYLE ::
  "string \<Rightarrow> string \<Rightarrow> string \<Rightarrow> pyval \<Rightarrow> pyval \<Rightarrow> string \<Rightarrow> string \<Rightarrow> string \<Rightarrow> pyval
    \<Rightarrow> css list" where
  "D3Line2D_STYLE figid lid linecolor linewidth markeredgewidth markeredgecolor markercolor
      dasharray alpha =
    [Rule (''div#figure'' @ figid @ '' path.line'' @ lid)
       [(''stroke'', [Lit linecolor]),
        (''stroke-width'', [Fmt linewidth]),
        (''stroke-dasharray'', [Lit dasharray]),
        (''fill'', [Lit ''none'']),
        (''stroke-opacity'', [Fmt alpha])],
     Rule (''div#figure'' @ figid @ '' path.points'' @ lid)
       [(''stroke-width'', [Fmt markeredgewidth]),
        (''stroke'', [Lit markeredgecolor]),
        (''fill'', [Lit markercolor]),
        (''fill-opacity'', [Fmt alpha]),
        (''stroke-opacity'', [Fmt alpha])]]"

definition LINE_ZOOM :: "string \<Rightarrow> string \<Rightarrow> stmt list" where
  "LINE_ZOOM lid axid =
    [SExpr (chain (JRaw (''axes_'' @ axid))
       [(''select'', [JS (''.line'' @ lid)]),
        (''attr'', [JS ''d'', JApp (JRaw (''line_'' @ lid)) [JRaw (''data_'' @ lid)]])])]"

definition POINTS_ZOOM :: "string \<Rightarrow> string \<Rightarrow> stmt list" where
  "POINTS_ZOOM lid axid =
    [SExpr (chain (JRaw (''axes_'' @ axid))
       [(''selectAll'', [JS (''.points'' @ lid)]),
        (''attr'', [JS ''transform'', translate_fn axid])])]"

definition LINE_TEMPLATE :: "string \<Rightarrow> string \<Rightarrow> stmt list" where
  "LINE_TEMPLATE lid axid =
    [SVar (''line_'' @ lid)
       (chain (JRaw ''d3.svg.line()'')
          [(''x'', [JFunRet [''d''] (JApp (JRaw (''x_'' @ axid)) [JRaw ''d[0]''])]),
           (''y'', [JFunRet [''d''] (JApp (JRaw (''y_'' @ axid)) [JRaw ''d[1]''])]),
           (''interpolate'', [JS ''linear''])]),
     SExpr (chain (JRaw (''axes_'' @ axid))
       [(''append'', [JS ''svg:path'']),
        (''attr'', [JS ''d'', JApp (JRaw (''line_'' @ lid)) [JRaw (''data_'' @ lid)]]),
        (''attr'', [JS ''class'', JS (''line'' @ lid)])])]"

definition POINTS_TEMPLATE :: "string \<Rightarrow> string \<Rightarrow> string \<Rightarrow> pyval \<Rightarrow> stmt list" where
  "POINTS_TEMPLATE lid axid markershape markersize =
    [SVar (''g_'' @ lid) (chain (JRaw (''axes_'' @ axid)) [(''append'', [JS ''svg:g''])]),
     SExpr (chain (JRaw (''g_'' @ lid))
       [(''selectAll'', [JS (''scatter-dots-'' @ lid)]),
        (''data'', [JRaw (''data_'' @ lid)]),
        (''enter'', []),
        (''append'', [JS ''svg:path'']),
        (''attr'', [JS ''class'', JS (''points'' @ lid)]),
        (''attr'', [JS ''d'',
           chain (JRaw ''d3.svg.symbol()'')
             [(''type'', [JS markershape]), (''size'', [JVal markersize])]]),
        (''attr'', [JS ''transform'', translate_fn axid])])]"

definition D3Line2D_zoom :: "D3Line2D \<Rightarrow> py_error + stmt list" where
  "D3Line2D_zoom self =
     bind (if has_points self
           then bind (D3Base_axid (line_base self)) (\<lambda>a. Inr (POINTS_ZOOM (lineid self) a))
           else Inr [])
       (\<lambda>rp. bind (if has_line self
                   then bind (D3Base_axid (line_base self)) (\<lambda>a. Inr (LINE_ZOOM (lineid self) a))
                   else Inr [])
          (\<lambda>rl. Inr (rp @ rl)))"

text \<open>
  An absent alpha becomes the integer 1.  The marker size \<^verbatim>\<open>10. * markersize\<close> is
  passed to \<^verbatim>\<open>format\<close> but the style template has no field for it.
\<close>

definition alpha_or_1 :: "real option \<Rightarrow> pyval" where
  "alpha_or_1 a = (case a of None \<Rightarrow> PyInt 1 | Some x \<Rightarrow> PyFloat x)"

definition D3Line2D_style :: "utils \<Rightarrow> D3Line2D \<Rightarrow> py_error + css list" where
  "D3Line2D_style u self =
     (let alpha = alpha_or_1 (get_alpha (line self));
          lc = color_to_hex u (get_color (line self));
          lw = get_linewidth (line self);
          mc = color_to_hex u (get_markerfacecolor (line self));
          mec = color_to_hex u (get_markeredgecolor (line self));
          mew = get_markeredgewidth (line self);
          dasharray = get_dasharray u (line self)
      in bind (D3Base_figid (line_base self))
           (\<lambda>f. Inr (D3Line2D_STYLE f (lineid self) lc (PyFloat lw) (PyFloat mew) mec mc
                       dasharray alpha)))"

definition D3Line2D_html :: "utils \<Rightarrow> D3Line2D \<Rightarrow> py_error + stmt list" where
  "D3Line2D_html u self =
     (let data = get_xydata (line self);
          result = DATA_TEMPLATE (lineid self) data
      in bind (if has_points self
               then (let msh = get_d3_shape_for_marker u (get_marker (line self));
                         ms = 10 * get_markersize (line self)
                     in bind (D3Base_axid (line_base self))
                          (\<lambda>a. Inr (POINTS_TEMPLATE (lineid self) a msh (PyFloat ms))))
               else Inr [])
           (\<lambda>rp. bind (if has_line self
                       then bind (D3Base_axid (line_base self))
                              (\<lambda>a. Inr (LINE_TEMPLATE (lineid self) a))
                       else Inr [])
              (\<lambda>rl. Inr (result @ rp @ rl))))"

section \<open>D3Text\<close>

record D3Text =
  text_base :: d3base
  text_ax :: mpl_axes
  text_obj :: mpl_text

definition D3Text_init :: "d3base \<Rightarrow> mpl_axes \<Rightarrow> mpl_text \<Rightarrow> D3Text" where
  "D3Text_init parent ax t =
     \<lparr> text_base = D3Base None None (Some parent), text_ax = ax, text_obj = t \<rparr>"

definition TEXT_TEMPLATE ::
  "string \<Rightarrow> real \<Rightarrow> real \<Rightarrow> real \<Rightarrow> string \<Rightarrow> real \<Rightarrow> string \<Rightarrow> stmt list" where
  "TEXT_TEMPLATE txt x y fontsize color rotation anchor =
    [SExpr (chain (JRaw ''canvas'')
       [(''append'', [JS ''text'']),
        (''text'', [JS txt]),
        (''attr'', [JS ''class'', JS ''axes-text'']),
        (''attr'', [JS ''x'', JVal (PyFloat x)]),
        (''attr'', [JS ''y'', JBin (JRaw ''figheight'') ''-'' (JVal (PyFloat y))]),
        (''attr'', [JS ''font-size'', JStr [Fmt (PyFloat fontsize), Lit ''px'']]),
        (''attr'', [JS ''fill'', JS color]),
        (''attr'', [JS ''transform'',
           JBin (JBin (JStr [Lit ''rotate('', Fmt (PyFloat rotation), Lit '','',
                             Fmt (PyFloat x), Lit '',''])
                   ''+'' (JBin (JRaw ''figheight'') ''-'' (JVal (PyFloat y))))
             ''+'' (JS '')'')]),
        (''attr'', [JS ''style'', JS (''text-anchor: '' @ anchor @ '';'')])])]"

text \<open>
  An empty text draws nothing.  The y-axis label, recognised by object identity, is
  moved right by its font size.  \<^verbatim>\<open>style\<close> and \<^verbatim>\<open>zoom\<close> are inherited from
  \<^verbatim>\<open>D3Base\<close> and return the empty string.
\<close>

definition D3Text_html :: "utils \<Rightarrow> D3Text \<Rightarrow> py_error + stmt list" where
  "D3Text_html u self =
     (if get_text (text_obj self) = [] then Inr []
      else (let (x, y) = get_text_coordinates u (text_obj self);
                color = color_to_hex u (get_text_color (text_obj self));
                fontsize = get_size (text_obj self);
                x' = (if oid (text_obj self) = oid (label (yaxis (text_ax self)))
                      then x + fontsize else x)
            in Inr (TEXT_TEMPLATE (get_text (text_obj self)) x' y fontsize color
                      (- get_rotation (text_obj self)) ''middle'')))"

definition D3Text_style :: "D3Text \<Rightarrow> py_error + css list" where
  "D3Text_style self = Inr []"

definition D3Text_zoom :: "D3Text \<Rightarrow> py_error + stmt list" where
  "D3Text_zoom self = Inr []"

section \<open>D3Axes\<close>

record D3Axes =
  axes_base :: d3base
  ax :: mpl_axes
  lines :: "D3Line2D list"
  texts :: "D3Text list"
  grids :: "D3Grid list"

text \<open>
  The elements of an axes are objects of three classes kept in three lists;
  \<^verbatim>\<open>self.grids + self.lines + self.texts\<close> is the one list that \<^verbatim>\<open>html\<close> and the zoom
  handler walk.
\<close>

datatype d3elem = EGrid D3Grid | ELine D3Line2D | EText D3Text

definition elements :: "D3Axes \<Rightarrow> d3elem list" where
  "elements self = map EGrid (grids self) @ map ELine (lines self) @ map EText (texts self)"

fun elem_html :: "utils \<Rightarrow> d3elem \<Rightarrow> py_error + stmt list" where
  "elem_html u (EGrid g) = D3Grid_html g"
| "elem_html u (ELine l) = D3Line2D_html u l"
| "elem_html u (EText t) = D3Text_html u t"

fun elem_zoom :: "d3elem \<Rightarrow> py_error + stmt list" where
  "elem_zoom (EGrid g) = D3Grid_zoom g"
| "elem_zoom (ELine l) = D3Line2D_zoom l"
| "elem_zoom (EText t) = D3Text_zoom t"

text \<open>The class of an element.\<close>

fun elem_kind :: "d3elem \<Rightarrow> string" where
  "elem_kind (EGrid g) = ''grid''"
| "elem_kind (ELine l) = ''line''"
| "elem_kind (EText t) = ''text''"


definition D3Axes_STYLE :: "string \<Rightarrow> string \<Rightarrow> pyval \<Rightarrow> css list" where
  "D3Axes_STYLE figid axid fontsize =
    [Rule (''div#figure'' @ figid @ '' .axes'' @ axid @ ''.axis line, .axes'' @ axid
             @ ''.axis path'')
       [(''shape-rendering'', [Lit ''crispEdges'']),
        (''stroke'', [Lit ''black'']),
        (''fill'', [Lit ''none''])],
     Rule (''div#figure'' @ figid @ '' .axes'' @ axid @ ''.axis text'')
       [(''font-family'', [Lit ''sans-serif'']),
        (''font-size'', [Fmt fontsize, Lit ''px'']),
        (''fill'', [Lit ''black'']),
        (''stroke'', [Lit ''none''])]]"

text \<open>
  The statements of \<^verbatim>\<open>AXES_TEMPLATE\<close> before \<^verbatim>\<open>{elements}\<close>: the size of the axes, the
  two linear scales, the zoom behaviour, the group of the axes and its background,
  the two axis factories, the two drawn axes, the clip path and the clipped group.
\<close>

definition AXES_TEMPLATE_head ::
  "string \<Rightarrow> real \<times> real \<times> real \<times> real \<Rightarrow> real \<times> real \<Rightarrow> real \<times> real \<Rightarrow> string \<Rightarrow> stmt list" where
  "AXES_TEMPLATE_head axid bbox xlim ylim axesbg =
    (case bbox of (b0, b1, b2, b3) \<Rightarrow>
    [SVar (''width_'' @ axid) (JBin (JVal (PyFloat b2)) ''*'' (JRaw ''figwidth'')),
     SVar (''height_'' @ axid) (JBin (JVal (PyFloat b3)) ''*'' (JRaw ''figheight'')),
     SVar (''x_'' @ axid)
       (chain (JRaw ''d3.scale.linear()'')
          [(''domain'', [JArr [JVal (PyFloat (fst xlim)), JVal (PyFloat (snd xlim))]]),
           (''range'', [JArr [JRaw ''0'', JRaw (''width_'' @ axid)]])]),
     SVar (''y_'' @ axid)
       (chain (JRaw ''d3.scale.linear()'')
          [(''domain'', [JArr [JVal (PyFloat (fst ylim)), JVal (PyFloat (snd ylim))]]),
           (''range'', [JArr [JRaw (''height_'' @ axid), JRaw ''0'']])]),
     SVar (''zoom'' @ axid)
       (chain (JRaw ''d3.behavior.zoom()'')
          [(''x'', [JRaw (''x_'' @ axid)]),
           (''y'', [JRaw (''y_'' @ axid)]),
           (''on'', [JS ''zoom'', JRaw (''zoomed'' @ axid)])]),
     SVar (''baseaxes_'' @ axid)
       (chain (JRaw ''canvas'')
          [(''append'', [JS ''g'']),
           (''attr'', [JS ''transform'',
              JBin (JBin (JBin (JBin (JS ''translate('') ''+''
                                  (JBin (JVal (PyFloat b0)) ''*'' (JRaw ''figwidth'')))
                            ''+'' (JS '',''))
                      ''+'' (JBin (JBin (JBin (JRaw ''1'') ''-'' (JVal (PyFloat b1)))
                                    ''-'' (JVal (PyFloat b3)))
                               ''*'' (JRaw ''figheight'')))
                ''+'' (JS '')'')]),
           (''attr'', [JS ''width'', JRaw (''width_'' @ axid)]),
           (''attr'', [JS ''height'', JRaw (''height_'' @ axid)]),
           (''attr'', [JS ''class'', JS ''main'']),
           (''call'', [JRaw (''zoom'' @ axid)])]),
     SExpr (chain (JRaw (''baseaxes_'' @ axid))
       [(''append'', [JS ''svg:rect'']),
        (''attr'', [JS ''width'', JRaw (''width_'' @ axid)]),
        (''attr'', [JS ''height'', JRaw (''height_'' @ axid)]),
        (''attr'', [JS ''class'', JS (''bg'' @ axid)]),
        (''attr'', [JS ''fill'', JS axesbg])]),
     SVarFunc (''create_xAxis_'' @ axid) []
       [SReturn (chain (JRaw ''d3.svg.axis()'')
          [(''scale'', [JRaw (''x_'' @ axid)]), (''orient'', [JS ''bottom''])])],
     SVarFunc (''create_yAxis_'' @ axid) []
       [SReturn (chain (JRaw ''d3.svg.axis()'')
          [(''scale'', [JRaw (''y_'' @ axid)]), (''orient'', [JS ''left''])])],
     SVar (''xAxis_'' @ axid) (JRaw (''create_xAxis_'' @ axid @ ''()'')),
     SExpr (chain (JRaw (''baseaxes_'' @ axid))
       [(''append'', [JS ''g'']),
        (''attr'', [JS ''transform'',
           JBin (JBin (JS ''translate(0,'') ''+'' (JRaw (''(height_'' @ axid @ '')'')))
             ''+'' (JS '')'')]),
        (''attr'', [JS ''class'', JS (''axes'' @ axid @ '' x axis'')]),
        (''call'', [JRaw (''xAxis_'' @ axid)])]),
     SVar (''yAxis_'' @ axid) (JRaw (''create_yAxis_'' @ axid @ ''()'')),
     SExpr (chain (JRaw (''baseaxes_'' @ axid))
       [(''append'', [JS ''g'']),
        (''attr'', [JS ''transform'', JS ''translate(0,0)'']),
        (''attr'', [JS ''class'', JS (''axes'' @ axid @ '' y axis'')]),
        (''call'', [JRaw (''yAxis_'' @ axid)])]),
     SVar (''clip_'' @ axid)
       (chain (JRaw (''baseaxes_'' @ axid))
          [(''append'', [JS ''svg:clipPath'']),
           (''attr'', [JS ''id'', JS (''clip'' @ axid)]),
           (''append'', [JS ''svg:rect'']),
           (''attr'', [JS ''x'', JRaw ''0'']),
           (''attr'', [JS ''y'', JRaw ''0'']),
           (''attr'', [JS ''width'', JRaw (''width_'' @ axid)]),
           (''attr'', [JS ''height'', JRaw (''height_'' @ axid)])]),
     SVar (''axes_'' @ axid)
       (chain (JRaw (''baseaxes_'' @ axid))
          [(''append'', [JS ''g'']),
           (''attr'', [JS ''clip-path'', JS (''url(#clip'' @ axid @ '')'')])])])"

text \<open>
  The two statements that open the body of \<^verbatim>\<open>zoomed{axid}\<close>: the drawn x axis and
  the drawn y axis are called again on their groups.
\<close>

definition zoomed_ticks :: "string \<Rightarrow> stmt list" where
  "zoomed_ticks axid =
    [SExpr (chain (JRaw (''baseaxes_'' @ axid))
       [(''select'', [JS ''.x.axis'']), (''call'', [JRaw (''xAxis_'' @ axid)])]),
     SExpr (chain (JRaw (''baseaxes_'' @ axid))
       [(''select'', [JS ''.y.axis'']), (''call'', [JRaw (''yAxis_'' @ axid)])])]"

definition AXES_TEMPLATE ::
  "string \<Rightarrow> real \<times> real \<times> real \<times> real \<Rightarrow> real \<times> real \<Rightarrow> real \<times> real \<Rightarrow> string
    \<Rightarrow> stmt list \<Rightarrow> stmt list \<Rightarrow> stmt list" where
  "AXES_TEMPLATE axid bbox xlim ylim axesbg elems element_zooms =
     AXES_TEMPLATE_head axid bbox xlim ylim axesbg @ elems @
     [SFunc (''zoomed'' @ axid) [] (zoomed_ticks axid @ element_zooms)]"

text \<open>
  \<^verbatim>\<open>warnings.warn\<close> writes to the warning channel of the process; the channel is the
  list of messages issued so far, threaded through the constructors.  The
  constructor first reads \<^verbatim>\<open>self.figid\<close> through the parent, then builds the lines
  numbered from 1, the texts (the annotations, then the x label, the y label and
  the title) and one grid, and last issues one warning for each kind of child that
  is present but not drawn.
\<close>

definition getattr_ax :: "mpl_axes \<Rightarrow> string \<Rightarrow> mpl_artist list" where
  "getattr_ax a attr =
     (if attr = ''images'' then images a
      else if attr = ''collections'' then collections a
      else if attr = ''containers'' then containers a
      else if attr = ''artists'' then artists a
      else if attr = ''patches'' then patches a
      else tables a)"

definition not_implemented :: "string list" where
  "not_implemented =
     [''images'', ''collections'', ''containers'', ''artists'', ''patches'', ''tables'']"

definition axes_warnings :: "mpl_axes \<Rightarrow> string list" where
  "axes_warnings a =
     map (\<lambda>attr. attr @ '' not implemented.  Elements will be ignored'')
       (filter (\<lambda>attr. length (getattr_ax a attr) > 0) not_implemented)
     @ (if legend a \<noteq> None then [''legend is not implemented: it will be ignored'']
        else [])"

definition D3Axes_init ::
  "d3base \<Rightarrow> mpl_axes \<Rightarrow> nat \<Rightarrow> string list \<Rightarrow> (py_error + D3Axes) \<times> string list" where
  "D3Axes_init parent a i ws =
     (case D3Base_figid (D3Base None None (Some parent)) of
        Inl e \<Rightarrow> (Inl e, ws)
      | Inr f \<Rightarrow>
          (let self = D3Base None (Some (f @ str i)) (Some parent) in
           case mapM (\<lambda>(k, l). D3Line2D_init self l (Some (k + 1)))
                  (enumerate 0 (ax_lines a)) of
             Inl e \<Rightarrow> (Inl e, ws)
           | Inr ls \<Rightarrow>
               (Inr \<lparr> axes_base = self, ax = a, lines = ls,
                      texts = map (D3Text_init self a)
                                (ax_texts a @ [label (xaxis a), label (yaxis a), title a]),
                      grids = [D3Grid_init self a] \<rparr>,
                ws @ axes_warnings a)))"

text \<open>
  The font size of the tick labels is that of the first label, or 11 when there is
  none.  The rules are those of the axes, then of the grids, the lines and the texts.
\<close>

definition D3Axes_style :: "utils \<Rightarrow> D3Axes \<Rightarrow> py_error + css list" where
  "D3Axes_style u self =
     (let ticks = get_ticklabels (xaxis (ax self)) @ get_ticklabels (yaxis (ax self));
          fontsize_x = (case ticks of [] \<Rightarrow> PyInt 11 | t # _ \<Rightarrow> PyFloat (get_size t))
      in bind (D3Base_axid (axes_base self)) (\<lambda>a.
         bind (D3Base_figid (axes_base self)) (\<lambda>f.
         bind (mapM (D3Grid_style u) (grids self)) (\<lambda>gs.
         bind (mapM (D3Line2D_style u) (lines self)) (\<lambda>ls.
         bind (mapM D3Text_style (texts self)) (\<lambda>ts.
           Inr (D3Axes_STYLE f a fontsize_x @ concat gs @ concat ls @ concat ts)))))))"

definition D3Axes_html :: "utils \<Rightarrow> D3Axes \<Rightarrow> py_error + stmt list" where
  "D3Axes_html u self =
     bind (mapM (elem_html u) (elements self)) (\<lambda>es.
     bind (mapM elem_zoom (elements self)) (\<lambda>zs.
     bind (D3Base_axid (axes_base self)) (\<lambda>a.
       Inr (AXES_TEMPLATE a (bounds (ax self)) (get_xlim (ax self)) (get_ylim (ax self))
              ''#FCFCFC'' (concat es) (concat zs)))))"

section \<open>D3Figure\<close>

record D3Figure =
  fig_base :: d3base
  fig :: mpl_figure
  axes :: "D3Axes list"

text \<open>The axes are built in order, numbered from 1, each adding to the warnings.\<close>

fun build_axes ::
  "d3base \<Rightarrow> (nat \<times> mpl_axes) list \<Rightarrow> string list \<Rightarrow> (py_error + D3Axes list) \<times> string list"
  where
  "build_axes parent [] ws = (Inr [], ws)"
| "build_axes parent ((i, a) # rest) ws =
     (case D3Axes_init parent a (i + 1) ws of
        (Inl e, ws') \<Rightarrow> (Inl e, ws')
      | (Inr d, ws') \<Rightarrow>
          (case build_axes parent rest ws' of
             (Inl e, ws'') \<Rightarrow> (Inl e, ws'')
           | (Inr ds, ws'') \<Rightarrow> (Inr (d # ds), ws'')))"

text \<open>
  \<^verbatim>\<open>generate_figid\<close> draws a random UUID; its result is the first argument.
\<close>

definition D3Figure_init ::
  "string \<Rightarrow> mpl_figure \<Rightarrow> string list \<Rightarrow> (py_error + D3Figure) \<times> string list" where
  "D3Figure_init new_figid f ws =
     (let self = D3Base (Some new_figid) None None in
      case build_axes self (enumerate 0 (fig_axes f)) ws of
        (Inl e, ws') \<Rightarrow> (Inl e, ws')
      | (Inr ds, ws') \<Rightarrow> (Inr \<lparr> fig_base = self, fig = f, axes = ds \<rparr>, ws'))"

definition D3Figure_style :: "utils \<Rightarrow> D3Figure \<Rightarrow> py_error + css list" where
  "D3Figure_style u self = bind (mapM (D3Axes_style u) (axes self)) (\<lambda>ss. Inr (concat ss))"

definition FIGURE_TEMPLATE :: "string \<Rightarrow> real \<Rightarrow> real \<Rightarrow> real \<Rightarrow> stmt list \<Rightarrow> stmt list" where
  "FIGURE_TEMPLATE figid figwidth figheight fdpi axs =
    [SAssignFunc (''func'' @ figid) [''figure'']
       ([SVar ''figwidth'' (JBin (JVal (PyFloat figwidth)) ''*'' (JVal (PyFloat fdpi))),
         SVar ''figheight'' (JBin (JVal (PyFloat figheight)) ''*'' (JVal (PyFloat fdpi))),
         SVar ''canvas''
           (chain (JRaw ''figure'')
              [(''append'', [JS ''svg:svg'']),
               (''attr'', [JS ''width'', JRaw ''figwidth'']),
               (''attr'', [JS ''height'', JRaw ''figheight'']),
               (''attr'', [JS ''class'', JS ''canvas''])])]
        @ axs),
     SExpr (JApp (JRaw ''setTimeout'')
       [JFunDo [] (JApp (JRaw (''func'' @ figid))
                     [JApp (JRaw ''d3.select'') [JS (''#figure'' @ figid)]]),
        JRaw ''0''])]"

text \<open>
  The page: the script tag that loads d3, the style sheet, the \<^verbatim>\<open>div\<close> of the figure
  and the script.
\<close>

record page =
  d3_import :: string
  style_sheet :: "css list"
  div_id :: string
  script :: "stmt list"

definition D3Figure_html :: "utils \<Rightarrow> D3Figure \<Rightarrow> py_error + page" where
  "D3Figure_html u self =
     bind (mapM (D3Axes_html u) (axes self)) (\<lambda>hs.
     bind (D3Base_figid (fig_base self)) (\<lambda>f.
     bind (D3Figure_style u self) (\<lambda>st.
       Inr \<lparr> d3_import = ''http://d3js.org/d3.v3.min.js'', style_sheet = st,
              div_id = ''figure'' @ f,
              script = FIGURE_TEMPLATE f (get_figwidth (fig self)) (get_figheight (fig self))
                         (dpi (fig self)) (concat hs) \<rparr>)))"

section \<open>Reading the generated script\<close>

text \<open>
  The names of all methods a script calls, the names given to \<^verbatim>\<open>.attr(name, value)\<close>,
  and the values given to one named attribute.
\<close>

definition methods :: "stmt list \<Rightarrow> string list" where
  "methods out = map fst (concat (map stmt_calls out))"

definition attr_names :: "stmt list \<Rightarrow> js list" where
  "attr_names out = [n. (m, n # vs) \<leftarrow> concat (map stmt_calls out), m = ''attr'']"

definition attr_values :: "string \<Rightarrow> stmt list \<Rightarrow> js list" where
  "attr_values name out =
     [v. (m, [n, v]) \<leftarrow> concat (map stmt_calls out), m = ''attr'' \<and> n = JS name]"

section \<open>The objects a figure builds\<close>

text \<open>
  The axes object that \<^verbatim>\<open>D3Axes(parent, ax, i)\<close> yields when the parent resolves its
  figure identifier to \<^verbatim>\<open>f\<close>; \<^verbatim>\<open>D3Axes_init_built\<close> below proves that the constructor
  returns exactly this object.
\<close>

definition built_axes :: "string \<Rightarrow> d3base \<Rightarrow> mpl_axes \<Rightarrow> nat \<Rightarrow> D3Axes" where
  "built_axes f parent a i =
     (let self = D3Base None (Some (f @ str i)) (Some parent) in
      \<lparr> axes_base = self, ax = a,
        lines = map (\<lambda>(k, l). \<lparr> line_base = D3Base None None (Some self), line = l,
                                lineid = f @ str i @ str (k + 1) \<rparr>)
                  (enumerate 0 (ax_lines a)),
        texts = map (D3Text_init self a)
                  (ax_texts a @ [label (xaxis a), label (yaxis a), title a]),
        grids = [D3Grid_init self a] \<rparr>)"

section \<open>Example inputs\<close>

definition example_utils :: utils where
  "example_utils = \<lparr> get_text_coordinates = (\<lambda>t. (10, 20)),
     color_to_hex = (\<lambda>c. ''#000000''),
     get_dasharray = (\<lambda>l. ''10,0''),
     get_d3_shape_for_marker = (\<lambda>m. ''circle'') \<rparr>"

definition example_text :: "nat \<Rightarrow> string \<Rightarrow> mpl_text" where
  "example_text n s = \<lparr> oid = n, get_text = s, get_text_color = ColorName ''k'',
     get_size = 12, get_rotation = 0 \<rparr>"

definition example_axis :: "nat \<Rightarrow> bool \<Rightarrow> mpl_line list \<Rightarrow> mpl_axis" where
  "example_axis n g gl = \<lparr> label = example_text n [], gridOnMajor = g,
     get_gridlines = gl, get_ticklabels = [] \<rparr>"

text \<open>
  One axes on the unit square with one solid line of three points, the x grid off
  and the y grid on, and one gridline object on each axis.
\<close>

definition example_axes :: mpl_axes where
  "example_axes = \<lparr> ax_lines = [example_line], ax_texts = [],
     xaxis = example_axis 1 False [example_line],
     yaxis = example_axis 2 True [example_line],
     title = example_text 3 [],
     images = [], collections = [], containers = [], artists = [], patches = [],
     tables = [], legend = None,
     get_xlim = (0, 1), get_ylim = (0, 1), bounds = (0, 0, 1, 1) \<rparr>"

definition example_figure :: "mpl_axes list \<Rightarrow> mpl_figure" where
  "example_figure axs = \<lparr> fig_axes = axs, get_figwidth = 8, get_figheight = 6, dpi = 80 \<rparr>"

section \<open>Properties\<close>

lemma bind_Inr [simp]: "bind (Inr v) f = f v"
  by (simp add: bind_def)

lemma bind_Inl [simp]: "bind (Inl e) f = Inl e"
  by (simp add: bind_def)

lemma mapM_Inr: "(\<And>x. x \<in> set xs \<Longrightarrow> f x = Inr (g x)) \<Longrightarrow> mapM f xs = Inr (map g xs)"
  by (induction xs) simp_all

lemma mapM_map_Inr: "mapM f xs = Inr ys \<Longrightarrow> map f xs = map Inr ys"
proof (induction xs arbitrary: ys)
  case Nil
  then show ?case by simp
next
  case (Cons x xs)
  then show ?case
    by (cases "f x"; cases "mapM f xs") auto
qed

lemma mapM_fails:
  "x \<in> set xs \<Longrightarrow> f x = Inl e \<Longrightarrow> (\<And>y. y \<in> set xs \<Longrightarrow> f y = Inl e \<or> (\<exists>v. f y = Inr v))
     \<Longrightarrow> mapM f xs = Inl e"
proof (induction xs)
  case Nil
  then show ?case by simp
next
  case (Cons y ys)
  show ?case
  proof (cases "f y")
    case (Inl e')
    with Cons.prems(3) [of y] show ?thesis by auto
  next
    case (Inr v)
    with Cons.prems have "x \<in> set ys" by auto
    from Cons.IH [OF this Cons.prems(2)] Cons.prems(3) have "mapM f ys = Inl e" by auto
    with Inr show ?thesis by simp
  qed
qed






lemma str_1: "str 1 = ''1''"
  by (simp add: str.simps digit_def)

lemma str_Suc_0: "str (Suc 0) = ''1''"
  by (simp add: str.simps digit_def)

lemma str_2: "str 2 = ''2''"
  by (simp add: str.simps digit_def)


lemma D3Axes_init_built:
  assumes "D3Base_figid parent = Inr f"
  shows "D3Axes_init parent a i ws = (Inr (built_axes f parent a i), ws @ axes_warnings a)"
proof -
  let ?self = "D3Base None (Some (f @ str i)) (Some parent)"
  have "mapM (\<lambda>(k, l). D3Line2D_init ?self l (Some (k + 1))) (enumerate 0 (ax_lines a))
        = Inr (map (\<lambda>(k, l). \<lparr> line_base = D3Base None None (Some ?self), line = l,
                                lineid = f @ str i @ str (k + 1) \<rparr>) (enumerate 0 (ax_lines a)))"
    by (rule mapM_Inr) (auto simp: D3Line2D_init_def)
  with assms show ?thesis
    by (simp add: D3Axes_init_def built_axes_def Let_def)
qed

lemma build_axes_built:
  assumes "D3Base_figid parent = Inr f"
  shows "build_axes parent ias ws =
     (Inr (map (\<lambda>(i, a). built_axes f parent a (i + 1)) ias),
      ws @ concat (map (\<lambda>(i, a). axes_warnings a) ias))"
proof (induction ias arbitrary: ws)
  case Nil
  show ?case by simp
next
  case (Cons ia ias)
  obtain i a where ia: "ia = (i, a)" by (cases ia)
  show ?case
    by (simp add: ia D3Axes_init_built [OF assms] Cons.IH)
qed

lemma map_snd_enumerate: "map (\<lambda>(i, a). g a) (enumerate n xs) = map g xs"
  by (induction xs arbitrary: n) simp_all

lemma D3Figure_init_built:
  "D3Figure_init fid f ws =
     (Inr \<lparr> fig_base = D3Base (Some fid) None None, fig = f,
            axes = map (\<lambda>(i, a). built_axes fid (D3Base (Some fid) None None) a (i + 1))
                     (enumerate 0 (fig_axes f)) \<rparr>,
      ws @ concat (map axes_warnings (fig_axes f)))"
  by (simp add: D3Figure_init_def Let_def build_axes_built [where f = fid] map_snd_enumerate)


subsection \<open>Grid lines follow the two flags\<close>

lemmas template_defs =
  XGRID_TEMPLATE_def YGRID_TEMPLATE_def XZOOM_def YZOOM_def grid_axis_def
  LINE_ZOOM_def POINTS_ZOOM_def LINE_TEMPLATE_def POINTS_TEMPLATE_def DATA_TEMPLATE_def
  translate_fn_def TEXT_TEMPLATE_def chain_def

lemma attr_values_append: "attr_values n (xs @ ys) = attr_values n xs @ attr_values n ys"
  by (simp add: attr_values_def)

lemma attr_values_Nil: "attr_values n [] = []"
  by (simp add: attr_values_def)

lemma class_XGRID: "attr_values ''class'' (XGRID_TEMPLATE a) = [JS (''axes'' @ a @ '' x grid'')]"
  by (simp add: attr_values_def template_defs)

lemma class_YGRID: "attr_values ''class'' (YGRID_TEMPLATE a) = [JS (''axes'' @ a @ '' y grid'')]"
  by (simp add: attr_values_def template_defs)

lemma D3Grid_html_resolved:
  "D3Base_axid (grid_base g) = Inr a \<Longrightarrow>
   D3Grid_html g =
     Inr ((if gridOnMajor (xaxis (grid_ax g)) then XGRID_TEMPLATE a else []) @
          (if gridOnMajor (yaxis (grid_ax g)) then YGRID_TEMPLATE a else []))"
  by (simp add: D3Grid_html_def)

text \<open>
  C8.  When the grid resolves its axes identifier, its initial draw consists of at
  most two statements, written out in full below.  The first is present if and only
  if the x major-grid flag is on: it appends a group of class \<^verbatim>\<open>axes{axid} x grid\<close> at
  the bottom of the axes and calls on it the x axis generator with ticks of length
  minus the height of the axes and no tick text, which are the vertical grid lines.
  The second is present if and only if the y flag is on: it appends a group of class
  \<^verbatim>\<open>axes{axid} y grid\<close> and calls on it the y axis generator with ticks of length minus
  the width of the axes, the horizontal grid lines.  The long-tick call of the
  x generator occurs in the draw exactly when the x flag is on, that of the
  y generator exactly when the y flag is on, and so do the two class names.
\<close>

theorem D3Grid_html_flags:
  assumes "D3Base_axid (grid_base g) = Inr a"
  shows "\<exists>out. D3Grid_html g = Inr out \<and>
           out =
             (if gridOnMajor (xaxis (grid_ax g)) then
                [SExpr (JCall (JCall (JCall (JCall (JRaw (''axes_'' @ a))
                   ''append'' [JS ''g''])
                   ''attr'' [JS ''class'', JS (''axes'' @ a @ '' x grid'')])
                   ''attr'' [JS ''transform'',
                      JBin (JBin (JS ''translate(0,'') ''+'' (JRaw (''(height_'' @ a @ '')'')))
                        ''+'' (JS '')'')])
                   ''call'' [JCall (JCall (JRaw (''create_xAxis_'' @ a @ ''()''))
                      ''tickSize'' [JRaw (''-(height_'' @ a @ '')''), JRaw ''0'', JRaw ''0''])
                      ''tickFormat'' [JS []]])]
              else []) @
             (if gridOnMajor (yaxis (grid_ax g)) then
                [SExpr (JCall (JCall (JCall (JRaw (''axes_'' @ a))
                   ''append'' [JS ''g''])
                   ''attr'' [JS ''class'', JS (''axes'' @ a @ '' y grid'')])
                   ''call'' [JCall (JCall (JRaw (''create_yAxis_'' @ a @ ''()''))
                      ''tickSize'' [JRaw (''-(width_'' @ a @ '')''), JRaw ''0'', JRaw ''0''])
                      ''tickFormat'' [JS []]])]
              else []) \<and>
           ((''call'', [JCall (JCall (JRaw (''create_xAxis_'' @ a @ ''()''))
                      ''tickSize'' [JRaw (''-(height_'' @ a @ '')''), JRaw ''0'', JRaw ''0''])
                      ''tickFormat'' [JS []]]) \<in> set (concat (map stmt_calls out))
              \<longleftrightarrow> gridOnMajor (xaxis (grid_ax g))) \<and>
           ((''call'', [JCall (JCall (JRaw (''create_yAxis_'' @ a @ ''()''))
                      ''tickSize'' [JRaw (''-(width_'' @ a @ '')''), JRaw ''0'', JRaw ''0''])
                      ''tickFormat'' [JS []]]) \<in> set (concat (map stmt_calls out))
              \<longleftrightarrow> gridOnMajor (yaxis (grid_ax g))) \<and>
           (JS (''axes'' @ a @ '' x grid'') \<in> set (attr_values ''class'' out)
              \<longleftrightarrow> gridOnMajor (xaxis (grid_ax g))) \<and>
           (JS (''axes'' @ a @ '' y grid'') \<in> set (attr_values ''class'' out)
              \<longleftrightarrow> gridOnMajor (yaxis (grid_ax g)))"
proof -
  let ?out = "(if gridOnMajor (xaxis (grid_ax g)) then XGRID_TEMPLATE a else []) @
              (if gridOnMajor (yaxis (grid_ax g)) then YGRID_TEMPLATE a else [])"
  have r: "D3Grid_html g = Inr ?out"
    by (rule D3Grid_html_resolved [OF assms])
  have x: "XGRID_TEMPLATE a =
      [SExpr (JCall (JCall (JCall (JCall (JRaw (''axes_'' @ a))
         ''append'' [JS ''g''])
         ''attr'' [JS ''class'', JS (''axes'' @ a @ '' x grid'')])
         ''attr'' [JS ''transform'',
            JBin (JBin (JS ''translate(0,'') ''+'' (JRaw (''(height_'' @ a @ '')'')))
              ''+'' (JS '')'')])
         ''call'' [JCall (JCall (JRaw (''create_xAxis_'' @ a @ ''()''))
            ''tickSize'' [JRaw (''-(height_'' @ a @ '')''), JRaw ''0'', JRaw ''0''])
            ''tickFormat'' [JS []]])]"
    by (simp add: template_defs)
  have y: "YGRID_TEMPLATE a =
      [SExpr (JCall (JCall (JCall (JRaw (''axes_'' @ a))
         ''append'' [JS ''g''])
         ''attr'' [JS ''class'', JS (''axes'' @ a @ '' y grid'')])
         ''call'' [JCall (JCall (JRaw (''create_yAxis_'' @ a @ ''()''))
            ''tickSize'' [JRaw (''-(width_'' @ a @ '')''), JRaw ''0'', JRaw ''0''])
            ''tickFormat'' [JS []]])]"
    by (simp add: template_defs)
  have cx: "(''call'', [JCall (JCall (JRaw (''create_xAxis_'' @ a @ ''()''))
                      ''tickSize'' [JRaw (''-(height_'' @ a @ '')''), JRaw ''0'', JRaw ''0''])
                      ''tickFormat'' [JS []]]) \<in> set (concat (map stmt_calls ?out))
              \<longleftrightarrow> gridOnMajor (xaxis (grid_ax g))"
    unfolding x y by simp
  have cy: "(''call'', [JCall (JCall (JRaw (''create_yAxis_'' @ a @ ''()''))
                      ''tickSize'' [JRaw (''-(width_'' @ a @ '')''), JRaw ''0'', JRaw ''0''])
                      ''tickFormat'' [JS []]]) \<in> set (concat (map stmt_calls ?out))
              \<longleftrightarrow> gridOnMajor (yaxis (grid_ax g))"
    unfolding x y by simp
  have kx: "JS (''axes'' @ a @ '' x grid'') \<in> set (attr_values ''class'' ?out)
      \<longleftrightarrow> gridOnMajor (xaxis (grid_ax g))"
    by (simp add: attr_values_append attr_values_Nil class_XGRID class_YGRID)
  have ky: "JS (''axes'' @ a @ '' y grid'') \<in> set (attr_values ''class'' ?out)
      \<longleftrightarrow> gridOnMajor (yaxis (grid_ax g))"
    by (simp add: attr_values_append attr_values_Nil class_XGRID class_YGRID)
  show ?thesis
    apply (rule exI [of _ ?out])
    apply (intro conjI)
         apply (rule r)
        apply (simp only: x y)
       apply (rule cx)
      apply (rule cy)
     apply (rule kx)
    apply (rule ky)
    done
qed

theorem D3Grid_html_flags_witness:
  "D3Grid_html (D3Grid_init (D3Base None (Some ''f1'') None) example_axes)
     = Inr [SExpr (JCall (JCall (JCall (JRaw ''axes_f1'')
              ''append'' [JS ''g''])
              ''attr'' [JS ''class'', JS ''axesf1 y grid''])
              ''call'' [JCall (JCall (JRaw ''create_yAxis_f1()'')
                 ''tickSize'' [JRaw ''-(width_f1)'', JRaw ''0'', JRaw ''0''])
                 ''tickFormat'' [JS []]])]"
  using D3Grid_html_flags [of "D3Grid_init (D3Base None (Some ''f1'') None) example_axes" "''f1''"]
  by (simp add: D3Grid_init_def example_axes_def example_axis_def)

subsection \<open>A zoom only recomputes geometry\<close>

lemma methods_append: "methods (xs @ ys) = methods xs @ methods ys"
  by (simp add: methods_def)

lemma attr_names_append: "attr_names (xs @ ys) = attr_names xs @ attr_names ys"
  by (simp add: attr_names_def)

lemma bound_names_append: "bound_names (xs @ ys) = bound_names xs @ bound_names ys"
  by (simp add: bound_names_def)

lemma operators_append: "operators (xs @ ys) = operators xs @ operators ys"
  by (simp add: operators_def)

lemma raw_texts_append: "raw_texts (xs @ ys) = raw_texts xs @ raw_texts ys"
  by (simp add: raw_texts_def)

lemma applied_append: "applied (xs @ ys) = applied xs @ applied ys"
  by (simp add: applied_def)

lemmas observers_append =
  methods_append attr_names_append bound_names_append operators_append raw_texts_append
  applied_append

lemma observers_Nil:
  "methods [] = []" "attr_names [] = []" "bound_names [] = []" "operators [] = []"
  "raw_texts [] = []" "applied [] = []"
  by (simp_all add: methods_def attr_names_def bound_names_def operators_def raw_texts_def
        applied_def)

lemma XZOOM_explicit:
  "XZOOM a =
    [SExpr (JCall (JCall (JRaw (''axes_'' @ a)) ''select'' [JS ''.x.grid''])
       ''call'' [JCall (JCall (JRaw (''create_xAxis_'' @ a @ ''()''))
          ''tickSize'' [JRaw (''-(height_'' @ a @ '')''), JRaw ''0'', JRaw ''0''])
          ''tickFormat'' [JS []]])]"
  by (simp add: template_defs)

lemma YZOOM_explicit:
  "YZOOM a =
    [SExpr (JCall (JCall (JRaw (''axes_'' @ a)) ''select'' [JS ''.y.grid''])
       ''call'' [JCall (JCall (JRaw (''create_yAxis_'' @ a @ ''()''))
          ''tickSize'' [JRaw (''-(width_'' @ a @ '')''), JRaw ''0'', JRaw ''0''])
          ''tickFormat'' [JS []]])]"
  by (simp add: template_defs)

lemma POINTS_ZOOM_explicit:
  "POINTS_ZOOM i a =
    [SExpr (JCall (JCall (JRaw (''axes_'' @ a)) ''selectAll'' [JS (''.points'' @ i)])
       ''attr'' [JS ''transform'',
          JFunRet [''d'']
            (JBin (JBin (JBin (JBin (JS ''translate('') ''+''
                                 (JApp (JRaw (''x_'' @ a)) [JRaw ''d[0]'']))
                           ''+'' (JS '',''))
                     ''+'' (JApp (JRaw (''y_'' @ a)) [JRaw ''d[1]'']))
               ''+'' (JS '')''))])]"
  by (simp add: template_defs)

lemma LINE_ZOOM_explicit:
  "LINE_ZOOM i a =
    [SExpr (JCall (JCall (JRaw (''axes_'' @ a)) ''select'' [JS (''.line'' @ i)])
       ''attr'' [JS ''d'', JApp (JRaw (''line_'' @ i)) [JRaw (''data_'' @ i)]])]"
  by (simp add: template_defs)

lemma zoom_templates_methods:
  "methods (XZOOM a) = [''select'', ''tickSize'', ''tickFormat'', ''call'']"
  "methods (YZOOM a) = [''select'', ''tickSize'', ''tickFormat'', ''call'']"
  "methods (POINTS_ZOOM i a) = [''selectAll'', ''attr'']"
  "methods (LINE_ZOOM i a) = [''select'', ''attr'']"
  by (simp_all add: methods_def template_defs)

lemma zoom_templates_attr_names:
  "attr_names (XZOOM a) = []"
  "attr_names (YZOOM a) = []"
  "attr_names (POINTS_ZOOM i a) = [JS ''transform'']"
  "attr_names (LINE_ZOOM i a) = [JS ''d'']"
  by (simp_all add: attr_names_def template_defs)

lemma zoom_templates_binds:
  "bound_names (XZOOM a) = []"
  "bound_names (YZOOM a) = []"
  "bound_names (POINTS_ZOOM i a) = []"
  "bound_names (LINE_ZOOM i a) = []"
  by (simp_all add: bound_names_def template_defs)

lemma zoom_templates_operators:
  "operators (XZOOM a) = []"
  "operators (YZOOM a) = []"
  "operators (POINTS_ZOOM i a) = [''+'', ''+'', ''+'', ''+'']"
  "operators (LINE_ZOOM i a) = []"
  by (simp_all add: operators_def template_defs)

lemma zoom_templates_raw_texts:
  "raw_texts (XZOOM a) =
     [''axes_'' @ a, ''create_xAxis_'' @ a @ ''()'', ''-(height_'' @ a @ '')'', ''0'', ''0'']"
  "raw_texts (YZOOM a) =
     [''axes_'' @ a, ''create_yAxis_'' @ a @ ''()'', ''-(width_'' @ a @ '')'', ''0'', ''0'']"
  "raw_texts (POINTS_ZOOM i a) = [''axes_'' @ a, ''x_'' @ a, ''d[0]'', ''y_'' @ a, ''d[1]'']"
  "raw_texts (LINE_ZOOM i a) = [''axes_'' @ a, ''line_'' @ i, ''data_'' @ i]"
  by (simp_all add: raw_texts_def template_defs)

lemma zoom_templates_applied:
  "applied (XZOOM a) = []"
  "applied (YZOOM a) = []"
  "applied (POINTS_ZOOM i a) = [JRaw (''x_'' @ a), JRaw (''y_'' @ a)]"
  "applied (LINE_ZOOM i a) = [JRaw (''line_'' @ i)]"
  by (simp_all add: applied_def template_defs)

lemmas zoom_templates_observed =
  zoom_templates_methods zoom_templates_attr_names zoom_templates_binds
  zoom_templates_operators zoom_templates_raw_texts zoom_templates_applied

lemma D3Grid_zoom_out:
  assumes "D3Grid_zoom g = Inr out"
  shows "\<exists>a. (out = [] \<or> D3Base_axid (grid_base g) = Inr a) \<and>
             out = (if gridOnMajor (xaxis (grid_ax g)) then XZOOM a else []) @
                   (if gridOnMajor (yaxis (grid_ax g)) then YZOOM a else [])"
proof (cases "D3Base_axid (grid_base g)")
  case (Inl e)
  with assms show ?thesis
    by (auto simp: D3Grid_zoom_def split: if_splits)
next
  case (Inr a)
  with assms show ?thesis
    by (auto simp: D3Grid_zoom_def split: if_splits)
qed

lemma D3Line2D_zoom_out:
  assumes "D3Line2D_zoom l = Inr out"
  shows "\<exists>a. (out = [] \<or> D3Base_axid (line_base l) = Inr a) \<and>
             out = (if has_points l then POINTS_ZOOM (lineid l) a else []) @
                   (if has_line l then LINE_ZOOM (lineid l) a else [])"
proof (cases "D3Base_axid (line_base l)")
  case (Inl e)
  with assms show ?thesis
    by (auto simp: D3Line2D_zoom_def split: if_splits)
next
  case (Inr a)
  with assms show ?thesis
    by (auto simp: D3Line2D_zoom_def split: if_splits)
qed

lemma D3Line2D_html_data:
  assumes "D3Line2D_zoom l = Inr out"
  shows "\<exists>h. D3Line2D_html u l =
               Inr (SVar (''data_'' @ lineid l) (JData (get_xydata (line l))) # h)"
proof (cases "D3Base_axid (line_base l)")
  case (Inl e)
  with assms show ?thesis
    by (auto simp: D3Line2D_zoom_def D3Line2D_html_def DATA_TEMPLATE_def Let_def
          split: if_splits)
next
  case (Inr a)
  then show ?thesis
    by (simp add: D3Line2D_html_def DATA_TEMPLATE_def Let_def)
qed

text \<open>
  C7.  Whenever the zoom update of an element returns, its statements are exactly
  those written out below.  A grid re-calls, on the group \<^verbatim>\<open>.x.grid\<close> and on the group
  \<^verbatim>\<open>.y.grid\<close>, the axis generator with the long ticks, once for each flag that is on.
  A line sets, on the paths of class \<^verbatim>\<open>points{lineid}\<close>, the attribute \<^verbatim>\<open>transform\<close> to
  the translation to \<^verbatim>\<open>x_{axid}(d[0])\<close>, \<^verbatim>\<open>y_{axid}(d[1])\<close> of each point \<^verbatim>\<open>d\<close> when it has
  points, and, on the path of class \<^verbatim>\<open>line{lineid}\<close>, the attribute \<^verbatim>\<open>d\<close> to the line
  generator applied to \<^verbatim>\<open>data_{lineid}\<close> when it has a stroke.  A text emits nothing.
  So the positions are recomputed from the point data and the two scales, and
  nothing else happens: the only methods called are \<^verbatim>\<open>select\<close>, \<^verbatim>\<open>selectAll\<close>, \<^verbatim>\<open>attr\<close>,
  \<^verbatim>\<open>call\<close>, \<^verbatim>\<open>tickSize\<close> and \<^verbatim>\<open>tickFormat\<close>; the only attributes set are \<^verbatim>\<open>d\<close> and
  \<^verbatim>\<open>transform\<close>; the only operator anywhere in the statements is the \<^verbatim>\<open>+\<close> that joins
  the translation string, so nothing is assigned; no variable is declared; the only
  functions applied are the two scales and the line generator; and every piece of
  verbatim text is one of the names listed.  The variable \<^verbatim>\<open>data_{lineid}\<close> that the
  update reads is the one that the initial draw of the line declares, as its first
  statement, with the point data of the line.
\<close>

theorem zoom_geometry_only:
  assumes "elem_zoom e = Inr out"
  shows "(case e of
            EGrid g \<Rightarrow>
              \<exists>a. (out = [] \<or> D3Base_axid (grid_base g) = Inr a) \<and>
                out =
                  (if gridOnMajor (xaxis (grid_ax g)) then
                     [SExpr (JCall (JCall (JRaw (''axes_'' @ a)) ''select'' [JS ''.x.grid''])
                        ''call'' [JCall (JCall (JRaw (''create_xAxis_'' @ a @ ''()''))
                           ''tickSize'' [JRaw (''-(height_'' @ a @ '')''), JRaw ''0'', JRaw ''0''])
                           ''tickFormat'' [JS []]])]
                   else []) @
                  (if gridOnMajor (yaxis (grid_ax g)) then
                     [SExpr (JCall (JCall (JRaw (''axes_'' @ a)) ''select'' [JS ''.y.grid''])
                        ''call'' [JCall (JCall (JRaw (''create_yAxis_'' @ a @ ''()''))
                           ''tickSize'' [JRaw (''-(width_'' @ a @ '')''), JRaw ''0'', JRaw ''0''])
                           ''tickFormat'' [JS []]])]
                   else []) \<and>
                set (raw_texts out) \<subseteq>
                  {''axes_'' @ a, ''create_xAxis_'' @ a @ ''()'', ''create_yAxis_'' @ a @ ''()'',
                   ''-(height_'' @ a @ '')'', ''-(width_'' @ a @ '')'', ''0''} \<and>
                applied out = []
          | ELine l \<Rightarrow>
              \<exists>a. (out = [] \<or> D3Base_axid (line_base l) = Inr a) \<and>
                out =
                  (if has_points l then
                     [SExpr (JCall (JCall (JRaw (''axes_'' @ a))
                        ''selectAll'' [JS (''.points'' @ lineid l)])
                        ''attr'' [JS ''transform'',
                           JFunRet [''d'']
                             (JBin (JBin (JBin (JBin (JS ''translate('') ''+''
                                                  (JApp (JRaw (''x_'' @ a)) [JRaw ''d[0]'']))
                                            ''+'' (JS '',''))
                                      ''+'' (JApp (JRaw (''y_'' @ a)) [JRaw ''d[1]'']))
                                ''+'' (JS '')''))])]
                   else []) @
                  (if has_line l then
                     [SExpr (JCall (JCall (JRaw (''axes_'' @ a))
                        ''select'' [JS (''.line'' @ lineid l)])
                        ''attr'' [JS ''d'',
                           JApp (JRaw (''line_'' @ lineid l)) [JRaw (''data_'' @ lineid l)]])]
                   else []) \<and>
                set (raw_texts out) \<subseteq>
                  {''axes_'' @ a, ''x_'' @ a, ''y_'' @ a, ''d[0]'', ''d[1]'',
                   ''line_'' @ lineid l, ''data_'' @ lineid l} \<and>
                set (applied out) \<subseteq>
                  {JRaw (''x_'' @ a), JRaw (''y_'' @ a), JRaw (''line_'' @ lineid l)} \<and>
                (\<exists>h. D3Line2D_html u l =
                   Inr (SVar (''data_'' @ lineid l) (JData (get_xydata (line l))) # h))
          | EText t \<Rightarrow> out = []) \<and>
         set (methods out) \<subseteq>
           {''select'', ''selectAll'', ''attr'', ''call'', ''tickSize'', ''tickFormat''} \<and>
         set (attr_names out) \<subseteq> {JS ''d'', JS ''transform''} \<and>
         set (operators out) \<subseteq> {''+''} \<and>
         bound_names out = []"
proof (cases e)
  case (EGrid g)
  with assms obtain a where a: "out = [] \<or> D3Base_axid (grid_base g) = Inr a"
    and out: "out = (if gridOnMajor (xaxis (grid_ax g)) then XZOOM a else []) @
                    (if gridOnMajor (yaxis (grid_ax g)) then YZOOM a else [])"
    using D3Grid_zoom_out by auto
  have 1: "set (raw_texts out) \<subseteq>
      {''axes_'' @ a, ''create_xAxis_'' @ a @ ''()'', ''create_yAxis_'' @ a @ ''()'',
       ''-(height_'' @ a @ '')'', ''-(width_'' @ a @ '')'', ''0''}"
    unfolding out by (simp add: observers_append observers_Nil zoom_templates_raw_texts)
  have 2: "applied out = []"
    unfolding out by (simp add: observers_append observers_Nil zoom_templates_applied)
  have 3: "set (methods out) \<subseteq>
      {''select'', ''selectAll'', ''attr'', ''call'', ''tickSize'', ''tickFormat''}"
    unfolding out by (simp add: observers_append observers_Nil zoom_templates_methods)
  have 4: "set (attr_names out) \<subseteq> {JS ''d'', JS ''transform''}"
    unfolding out by (simp add: observers_append observers_Nil zoom_templates_attr_names)
  have 5: "set (operators out) \<subseteq> {''+''}"
    unfolding out by (simp add: observers_append observers_Nil zoom_templates_operators)
  have 6: "bound_names out = []"
    unfolding out by (simp add: observers_append observers_Nil zoom_templates_binds)
  from a out 1 2 have "\<exists>a. (out = [] \<or> D3Base_axid (grid_base g) = Inr a) \<and>
      out = (if gridOnMajor (xaxis (grid_ax g)) then XZOOM a else []) @
            (if gridOnMajor (yaxis (grid_ax g)) then YZOOM a else []) \<and>
      set (raw_texts out) \<subseteq>
        {''axes_'' @ a, ''create_xAxis_'' @ a @ ''()'', ''create_yAxis_'' @ a @ ''()'',
         ''-(height_'' @ a @ '')'', ''-(width_'' @ a @ '')'', ''0''} \<and>
      applied out = []"
    by blast
  with 3 4 5 6 show ?thesis
    unfolding EGrid d3elem.case XZOOM_explicit YZOOM_explicit by blast
next
  case (ELine l)
  with assms have z: "D3Line2D_zoom l = Inr out" by simp
  then obtain a where a: "out = [] \<or> D3Base_axid (line_base l) = Inr a"
    and out: "out = (if has_points l then POINTS_ZOOM (lineid l) a else []) @
                    (if has_line l then LINE_ZOOM (lineid l) a else [])"
    using D3Line2D_zoom_out by blast
  have 1: "set (raw_texts out) \<subseteq>
      {''axes_'' @ a, ''x_'' @ a, ''y_'' @ a, ''d[0]'', ''d[1]'',
       ''line_'' @ lineid l, ''data_'' @ lineid l}"
    unfolding out by (simp add: observers_append observers_Nil zoom_templates_raw_texts)
  have 2: "set (applied out) \<subseteq>
      {JRaw (''x_'' @ a), JRaw (''y_'' @ a), JRaw (''line_'' @ lineid l)}"
    unfolding out by (simp add: observers_append observers_Nil zoom_templates_applied)
  have 3: "set (methods out) \<subseteq>
      {''select'', ''selectAll'', ''attr'', ''call'', ''tickSize'', ''tickFormat''}"
    unfolding out by (simp add: observers_append observers_Nil zoom_templates_methods)
  have 4: "set (attr_names out) \<subseteq> {JS ''d'', JS ''transform''}"
    unfolding out by (simp add: observers_append observers_Nil zoom_templates_attr_names)
  have 5: "set (operators out) \<subseteq> {''+''}"
    unfolding out by (simp add: observers_append observers_Nil zoom_templates_operators)
  have 6: "bound_names out = []"
    unfolding out by (simp add: observers_append observers_Nil zoom_templates_binds)
  from D3Line2D_html_data [OF z, of u] obtain h where
    h: "D3Line2D_html u l = Inr (SVar (''data_'' @ lineid l) (JData (get_xydata (line l))) # h)"
    by blast
  from a out 1 2 h have "\<exists>a. (out = [] \<or> D3Base_axid (line_base l) = Inr a) \<and>
      out = (if has_points l then POINTS_ZOOM (lineid l) a else []) @
            (if has_line l then LINE_ZOOM (lineid l) a else []) \<and>
      set (raw_texts out) \<subseteq>
        {''axes_'' @ a, ''x_'' @ a, ''y_'' @ a, ''d[0]'', ''d[1]'',
         ''line_'' @ lineid l, ''data_'' @ lineid l} \<and>
      set (applied out) \<subseteq>
        {JRaw (''x_'' @ a), JRaw (''y_'' @ a), JRaw (''line_'' @ lineid l)} \<and>
      (\<exists>h. D3Line2D_html u l =
         Inr (SVar (''data_'' @ lineid l) (JData (get_xydata (line l))) # h))"
    by blast
  with 3 4 5 6 show ?thesis
    unfolding ELine d3elem.case POINTS_ZOOM_explicit LINE_ZOOM_explicit by blast
next
  case (EText t)
  with assms have "out = []" by (simp add: D3Text_zoom_def)
  then show ?thesis
    by (simp add: EText observers_Nil)
qed

theorem zoom_geometry_only_witness:
  "elem_zoom (ELine \<lparr> line_base = D3Base None (Some ''f1'') None,
       line = example_line\<lparr>get_marker := Some ''o''\<rparr>, lineid = ''f11'' \<rparr>)
     = Inr [SExpr (JCall (JCall (JRaw ''axes_f1'') ''selectAll'' [JS ''.pointsf11''])
              ''attr'' [JS ''transform'',
                 JFunRet [''d'']
                   (JBin (JBin (JBin (JBin (JS ''translate('') ''+''
                                        (JApp (JRaw ''x_f1'') [JRaw ''d[0]'']))
                                  ''+'' (JS '',''))
                            ''+'' (JApp (JRaw ''y_f1'') [JRaw ''d[1]'']))
                      ''+'' (JS '')''))]),
            SExpr (JCall (JCall (JRaw ''axes_f1'') ''select'' [JS ''.linef11''])
              ''attr'' [JS ''d'', JApp (JRaw ''line_f11'') [JRaw ''data_f11'']])] \<and>
   (\<exists>h. D3Line2D_html example_utils
           \<lparr> line_base = D3Base None (Some ''f1'') None,
             line = example_line\<lparr>get_marker := Some ''o''\<rparr>, lineid = ''f11'' \<rparr>
         = Inr (SVar ''data_f11'' (JData [(0, 0), (1/2, 1/2), (1, 1)]) # h))"
proof -
  let ?l = "\<lparr> line_base = D3Base None (Some ''f1'') None,
       line = example_line\<lparr>get_marker := Some ''o''\<rparr>, lineid = ''f11'' \<rparr>"
  have z: "elem_zoom (ELine ?l) = Inr (POINTS_ZOOM ''f11'' ''f1'' @ LINE_ZOOM ''f11'' ''f1'')"
    by (simp add: D3Line2D_zoom_def has_points_def has_line_def absent_tokens_def
          example_line_def)
  have d: "get_xydata (line ?l) = [(0, 0), (1/2, 1/2), (1, 1)]" "lineid ?l = ''f11''"
    by (simp_all add: example_line_def)
  from zoom_geometry_only [OF z, of example_utils]
  have "\<exists>h. D3Line2D_html example_utils ?l =
          Inr (SVar (''data_'' @ lineid ?l) (JData (get_xydata (line ?l))) # h)"
    unfolding d3elem.case by blast
  then have "\<exists>h. D3Line2D_html example_utils ?l =
          Inr (SVar ''data_f11'' (JData [(0, 0), (1/2, 1/2), (1, 1)]) # h)"
    unfolding d by simp
  with z show ?thesis
    unfolding POINTS_ZOOM_explicit LINE_ZOOM_explicit by simp
qed

subsection \<open>What the axes of a figure emit\<close>

lemma mapM_total:
  "(\<And>x. x \<in> set xs \<Longrightarrow> \<exists>y. f x = Inr y) \<Longrightarrow> mapM f xs = Inr (map (\<lambda>x. projr (f x)) xs)"
  by (rule mapM_Inr) force

lemma D3Grid_zoom_resolved:
  "D3Base_axid (grid_base g) = Inr a \<Longrightarrow>
   D3Grid_zoom g =
     Inr ((if gridOnMajor (xaxis (grid_ax g)) then XZOOM a else []) @
          (if gridOnMajor (yaxis (grid_ax g)) then YZOOM a else []))"
  by (simp add: D3Grid_zoom_def)

lemma D3Line2D_html_resolved:
  "D3Base_axid (line_base l) = Inr a \<Longrightarrow>
   D3Line2D_html u l =
     Inr (DATA_TEMPLATE (lineid l) (get_xydata (line l)) @
          (if has_points l
           then POINTS_TEMPLATE (lineid l) a (get_d3_shape_for_marker u (get_marker (line l)))
                  (PyFloat (10 * get_markersize (line l)))
           else []) @
          (if has_line l then LINE_TEMPLATE (lineid l) a else []))"
  by (simp add: D3Line2D_html_def Let_def)

lemma D3Line2D_zoom_resolved:
  "D3Base_axid (line_base l) = Inr a \<Longrightarrow>
   D3Line2D_zoom l =
     Inr ((if has_points l then POINTS_ZOOM (lineid l) a else []) @
          (if has_line l then LINE_ZOOM (lineid l) a else []))"
  by (simp add: D3Line2D_zoom_def)

lemma D3Text_html_total: "\<exists>y. D3Text_html u t = Inr y"
  by (simp add: D3Text_html_def Let_def split_def)

text \<open>Every element of an axes object that was built produces its drawing statements.\<close>

lemma built_elements_html:
  assumes "e \<in> set (elements (built_axes f parent a i))"
  shows "\<exists>y. elem_html u e = Inr y"
proof -
  let ?self = "D3Base None (Some (f @ str i)) (Some parent)"
  have r: "D3Base_axid (D3Base None None (Some ?self)) = Inr (f @ str i)" by simp
  from assms consider
      (g) "e = EGrid (D3Grid_init ?self a)"
    | (l) l where "e = ELine l" "line_base l = D3Base None None (Some ?self)"
    | (t) t where "e = EText t"
    by (auto simp: elements_def built_axes_def Let_def)
  then show ?thesis
  proof cases
    case g
    then show ?thesis
      using D3Grid_html_resolved [of "D3Grid_init ?self a" "f @ str i"]
      by (simp add: D3Grid_init_def)
  next
    case l
    then show ?thesis
      using D3Line2D_html_resolved [of l "f @ str i" u] by simp
  next
    case t
    then show ?thesis using D3Text_html_total by simp
  qed
qed

lemma built_elements_zoom:
  assumes "e \<in> set (elements (built_axes f parent a i))"
  shows "\<exists>y. elem_zoom e = Inr y"
proof -
  let ?self = "D3Base None (Some (f @ str i)) (Some parent)"
  from assms consider
      (g) "e = EGrid (D3Grid_init ?self a)"
    | (l) l where "e = ELine l" "line_base l = D3Base None None (Some ?self)"
    | (t) t where "e = EText t"
    by (auto simp: elements_def built_axes_def Let_def)
  then show ?thesis
  proof cases
    case g
    then show ?thesis
      using D3Grid_zoom_resolved [of "D3Grid_init ?self a" "f @ str i"]
      by (simp add: D3Grid_init_def)
  next
    case l
    then show ?thesis
      using D3Line2D_zoom_resolved [of l "f @ str i"] by simp
  next
    case t
    then show ?thesis by (simp add: D3Text_zoom_def)
  qed
qed

lemma D3Axes_html_built:
  "D3Axes_html u (built_axes f parent a i) =
     Inr (AXES_TEMPLATE (f @ str i) (bounds a) (get_xlim a) (get_ylim a) ''#FCFCFC''
            (concat (map (\<lambda>e. projr (elem_html u e)) (elements (built_axes f parent a i))))
            (concat (map (\<lambda>e. projr (elem_zoom e)) (elements (built_axes f parent a i)))))"
proof -
  let ?A = "built_axes f parent a i"
  have h: "mapM (elem_html u) (elements ?A) = Inr (map (\<lambda>e. projr (elem_html u e)) (elements ?A))"
    by (rule mapM_total) (rule built_elements_html)
  have z: "mapM elem_zoom (elements ?A) = Inr (map (\<lambda>e. projr (elem_zoom e)) (elements ?A))"
    by (rule mapM_total) (rule built_elements_zoom)
  have b: "axes_base ?A = D3Base None (Some (f @ str i)) (Some parent)" "ax ?A = a"
    by (simp_all add: built_axes_def Let_def)
  show ?thesis
    unfolding D3Axes_html_def h z by (simp add: b)
qed

subsection \<open>The zoom handler\<close>

lemma example_elements:
  "elements (built_axes ''f'' (D3Base (Some ''f'') None None) example_axes 1) =
     [EGrid (D3Grid_init (D3Base None (Some ''f1'') (Some (D3Base (Some ''f'') None None)))
               example_axes),
      ELine \<lparr> line_base = D3Base None None
                 (Some (D3Base None (Some ''f1'') (Some (D3Base (Some ''f'') None None)))),
              line = example_line, lineid = ''f11'' \<rparr>,
      EText (D3Text_init (D3Base None (Some ''f1'') (Some (D3Base (Some ''f'') None None)))
               example_axes (example_text 1 [])),
      EText (D3Text_init (D3Base None (Some ''f1'') (Some (D3Base (Some ''f'') None None)))
               example_axes (example_text 2 [])),
      EText (D3Text_init (D3Base None (Some ''f1'') (Some (D3Base (Some ''f'') None None)))
               example_axes (example_text 3 []))]"
  by (simp add: elements_def built_axes_def Let_def example_axes_def example_axis_def str_1 str_Suc_0)

lemma example_html:
  "D3Axes_html example_utils (built_axes ''f'' (D3Base (Some ''f'') None None) example_axes 1) =
     Inr (AXES_TEMPLATE ''f1'' (0, 0, 1, 1) (0, 1) (0, 1) ''#FCFCFC''
            (YGRID_TEMPLATE ''f1'' @ DATA_TEMPLATE ''f11'' [(0, 0), (1/2, 1/2), (1, 1)] @
             LINE_TEMPLATE ''f11'' ''f1'')
            (YZOOM ''f1'' @ LINE_ZOOM ''f11'' ''f1''))"
  unfolding D3Axes_html_built example_elements
  by (simp add: str_1 str_Suc_0 D3Grid_html_def D3Grid_zoom_def D3Grid_init_def D3Line2D_html_def
        D3Line2D_zoom_def D3Text_html_def D3Text_zoom_def D3Text_init_def has_line_def
        has_points_def absent_tokens_def example_line_def example_text_def example_axes_def
        example_axis_def Let_def)

lemma AXES_TEMPLATE_head_explicit:
  "AXES_TEMPLATE_head a (b0, b1, b2, b3) xl yl bg =
    [SVar (''width_'' @ a) (JBin (JVal (PyFloat b2)) ''*'' (JRaw ''figwidth'')),
     SVar (''height_'' @ a) (JBin (JVal (PyFloat b3)) ''*'' (JRaw ''figheight'')),
     SVar (''x_'' @ a)
       (JCall (JCall (JRaw ''d3.scale.linear()'')
          ''domain'' [JArr [JVal (PyFloat (fst xl)), JVal (PyFloat (snd xl))]])
          ''range'' [JArr [JRaw ''0'', JRaw (''width_'' @ a)]]),
     SVar (''y_'' @ a)
       (JCall (JCall (JRaw ''d3.scale.linear()'')
          ''domain'' [JArr [JVal (PyFloat (fst yl)), JVal (PyFloat (snd yl))]])
          ''range'' [JArr [JRaw (''height_'' @ a), JRaw ''0'']]),
     SVar (''zoom'' @ a)
       (JCall (JCall (JCall (JRaw ''d3.behavior.zoom()'')
          ''x'' [JRaw (''x_'' @ a)])
          ''y'' [JRaw (''y_'' @ a)])
          ''on'' [JS ''zoom'', JRaw (''zoomed'' @ a)]),
     SVar (''baseaxes_'' @ a)
       (JCall (JCall (JCall (JCall (JCall (JCall (JRaw ''canvas'')
          ''append'' [JS ''g''])
          ''attr'' [JS ''transform'',
             JBin (JBin (JBin (JBin (JS ''translate('') ''+''
                                 (JBin (JVal (PyFloat b0)) ''*'' (JRaw ''figwidth'')))
                           ''+'' (JS '',''))
                     ''+'' (JBin (JBin (JBin (JRaw ''1'') ''-'' (JVal (PyFloat b1)))
                                   ''-'' (JVal (PyFloat b3)))
                              ''*'' (JRaw ''figheight'')))
               ''+'' (JS '')'')])
          ''attr'' [JS ''width'', JRaw (''width_'' @ a)])
          ''attr'' [JS ''height'', JRaw (''height_'' @ a)])
          ''attr'' [JS ''class'', JS ''main''])
          ''call'' [JRaw (''zoom'' @ a)]),
     SExpr (JCall (JCall (JCall (JCall (JCall (JRaw (''baseaxes_'' @ a))
        ''append'' [JS ''svg:rect''])
        ''attr'' [JS ''width'', JRaw (''width_'' @ a)])
        ''attr'' [JS ''height'', JRaw (''height_'' @ a)])
        ''attr'' [JS ''class'', JS (''bg'' @ a)])
        ''attr'' [JS ''fill'', JS bg]),
     SVarFunc (''create_xAxis_'' @ a) []
       [SReturn (JCall (JCall (JRaw ''d3.svg.axis()'')
          ''scale'' [JRaw (''x_'' @ a)]) ''orient'' [JS ''bottom''])],
     SVarFunc (''create_yAxis_'' @ a) []
       [SReturn (JCall (JCall (JRaw ''d3.svg.axis()'')
          ''scale'' [JRaw (''y_'' @ a)]) ''orient'' [JS ''left''])],
     SVar (''xAxis_'' @ a) (JRaw (''create_xAxis_'' @ a @ ''()'')),
     SExpr (JCall (JCall (JCall (JCall (JRaw (''baseaxes_'' @ a))
        ''append'' [JS ''g''])
        ''attr'' [JS ''transform'',
           JBin (JBin (JS ''translate(0,'') ''+'' (JRaw (''(height_'' @ a @ '')'')))
             ''+'' (JS '')'')])
        ''attr'' [JS ''class'', JS (''axes'' @ a @ '' x axis'')])
        ''call'' [JRaw (''xAxis_'' @ a)]),
     SVar (''yAxis_'' @ a) (JRaw (''create_yAxis_'' @ a @ ''()'')),
     SExpr (JCall (JCall (JCall (JCall (JRaw (''baseaxes_'' @ a))
        ''append'' [JS ''g''])
        ''attr'' [JS ''transform'', JS ''translate(0,0)''])
        ''attr'' [JS ''class'', JS (''axes'' @ a @ '' y axis'')])
        ''call'' [JRaw (''yAxis_'' @ a)]),
     SVar (''clip_'' @ a)
       (JCall (JCall (JCall (JCall (JCall (JCall (JCall (JRaw (''baseaxes_'' @ a))
          ''append'' [JS ''svg:clipPath''])
          ''attr'' [JS ''id'', JS (''clip'' @ a)])
          ''append'' [JS ''svg:rect''])
          ''attr'' [JS ''x'', JRaw ''0''])
          ''attr'' [JS ''y'', JRaw ''0''])
          ''attr'' [JS ''width'', JRaw (''width_'' @ a)])
          ''attr'' [JS ''height'', JRaw (''height_'' @ a)]),
     SVar (''axes_'' @ a)
       (JCall (JCall (JRaw (''baseaxes_'' @ a))
          ''append'' [JS ''g''])
          ''attr'' [JS ''clip-path'', JS (''url(#clip'' @ a @ '')'')])]"
  by (simp add: AXES_TEMPLATE_head_def chain_def)

lemma AXES_TEMPLATE_head_length: "length (AXES_TEMPLATE_head a bbox xl yl bg) = 15"
  by (simp add: AXES_TEMPLATE_head_def split_def)

lemma zoomed_ticks_explicit:
  "zoomed_ticks a =
    [SExpr (JCall (JCall (JRaw (''baseaxes_'' @ a)) ''select'' [JS ''.x.axis''])
       ''call'' [JRaw (''xAxis_'' @ a)]),
     SExpr (JCall (JCall (JRaw (''baseaxes_'' @ a)) ''select'' [JS ''.y.axis''])
       ''call'' [JRaw (''yAxis_'' @ a)])]"
  by (simp add: zoomed_ticks_def chain_def)

lemma D3Axes_html_out:
  assumes "D3Axes_html u A = Inr out"
  shows "\<exists>a es zs.
           D3Base_axid (axes_base A) = Inr a \<and>
           map (elem_html u) (elements A) = map Inr es \<and>
           map elem_zoom (elements A) = map Inr zs \<and>
           out = AXES_TEMPLATE_head a (bounds (ax A)) (get_xlim (ax A)) (get_ylim (ax A))
                   ''#FCFCFC''
                 @ concat es
                 @ [SFunc (''zoomed'' @ a) [] (zoomed_ticks a @ concat zs)]"
proof -
  from assms obtain es where es: "mapM (elem_html u) (elements A) = Inr es"
    by (cases "mapM (elem_html u) (elements A)") (auto simp: D3Axes_html_def)
  from assms es obtain zs where zs: "mapM elem_zoom (elements A) = Inr zs"
    by (cases "mapM elem_zoom (elements A)") (auto simp: D3Axes_html_def)
  from assms es zs obtain a where a: "D3Base_axid (axes_base A) = Inr a"
    by (cases "D3Base_axid (axes_base A)") (auto simp: D3Axes_html_def)
  from assms es zs a have out:
    "out = AXES_TEMPLATE_head a (bounds (ax A)) (get_xlim (ax A)) (get_ylim (ax A)) ''#FCFCFC''
           @ concat es @ [SFunc (''zoomed'' @ a) [] (zoomed_ticks a @ concat zs)]"
    by (simp add: D3Axes_html_def AXES_TEMPLATE_def)
  with a mapM_map_Inr [OF es] mapM_map_Inr [OF zs] show ?thesis by blast
qed

text \<open>
  C2.  Whenever \<^verbatim>\<open>D3Axes.html\<close> returns, its output is fifteen statements, then the
  drawings of the elements, then the handler \<^verbatim>\<open>zoomed{axid}\<close> as the last statement.
  Among the fifteen (written out below): the scales \<^verbatim>\<open>x_{axid}\<close> and \<^verbatim>\<open>y_{axid}\<close> (third
  and fourth); the zoom behaviour, which is given the two scales to rescale and
  \<^verbatim>\<open>zoomed{axid}\<close> as the listener of the \<^verbatim>\<open>zoom\<close> event (fifth) and is attached to the
  group of the axes (sixth); the two axis factories, which build a d3 axis on
  \<^verbatim>\<open>x_{axid}\<close> and on \<^verbatim>\<open>y_{axid}\<close> (eighth and ninth); the axis generators \<^verbatim>\<open>xAxis_{axid}\<close>
  and \<^verbatim>\<open>yAxis_{axid}\<close> made by the factories (tenth and twelfth) and the groups of
  classes \<^verbatim>\<open>x axis\<close> and \<^verbatim>\<open>y axis\<close> on which they draw the ticks (eleventh and
  thirteenth).  The body of the handler is: the group \<^verbatim>\<open>.x.axis\<close> calls \<^verbatim>\<open>xAxis_{axid}\<close>
  again, the group \<^verbatim>\<open>.y.axis\<close> calls \<^verbatim>\<open>yAxis_{axid}\<close> again, and only then the zoom
  statements of the elements, in the order of \<^verbatim>\<open>self.grids + self.lines + self.texts\<close>,
  which is the order in which the same elements are drawn.
\<close>

theorem zoomed_ticks_before_elements:
  assumes "D3Axes_html u A = Inr out"
  shows "\<exists>a es zs b0 b1 b2 b3.
           D3Base_axid (axes_base A) = Inr a \<and>
           bounds (ax A) = (b0, b1, b2, b3) \<and>
           map (elem_html u) (elements A) = map Inr es \<and>
           map elem_zoom (elements A) = map Inr zs \<and>
           drop 15 out =
             concat es @
             [SFunc (''zoomed'' @ a) []
                (SExpr (JCall (JCall (JRaw (''baseaxes_'' @ a)) ''select'' [JS ''.x.axis''])
                   ''call'' [JRaw (''xAxis_'' @ a)]) #
                 SExpr (JCall (JCall (JRaw (''baseaxes_'' @ a)) ''select'' [JS ''.y.axis''])
                   ''call'' [JRaw (''yAxis_'' @ a)]) #
                 concat zs)] \<and>
           take 15 out =
    [SVar (''width_'' @ a) (JBin (JVal (PyFloat b2)) ''*'' (JRaw ''figwidth'')),
     SVar (''height_'' @ a) (JBin (JVal (PyFloat b3)) ''*'' (JRaw ''figheight'')),
     SVar (''x_'' @ a)
       (JCall (JCall (JRaw ''d3.scale.linear()'')
          ''domain'' [JArr [JVal (PyFloat (fst (get_xlim (ax A)))),
                            JVal (PyFloat (snd (get_xlim (ax A))))]])
          ''range'' [JArr [JRaw ''0'', JRaw (''width_'' @ a)]]),
     SVar (''y_'' @ a)
       (JCall (JCall (JRaw ''d3.scale.linear()'')
          ''domain'' [JArr [JVal (PyFloat (fst (get_ylim (ax A)))),
                            JVal (PyFloat (snd (get_ylim (ax A))))]])
          ''range'' [JArr [JRaw (''height_'' @ a), JRaw ''0'']]),
     SVar (''zoom'' @ a)
       (JCall (JCall (JCall (JRaw ''d3.behavior.zoom()'')
          ''x'' [JRaw (''x_'' @ a)])
          ''y'' [JRaw (''y_'' @ a)])
          ''on'' [JS ''zoom'', JRaw (''zoomed'' @ a)]),
     SVar (''baseaxes_'' @ a)
       (JCall (JCall (JCall (JCall (JCall (JCall (JRaw ''canvas'')
          ''append'' [JS ''g''])
          ''attr'' [JS ''transform'',
             JBin (JBin (JBin (JBin (JS ''translate('') ''+''
                                 (JBin (JVal (PyFloat b0)) ''*'' (JRaw ''figwidth'')))
                           ''+'' (JS '',''))
                     ''+'' (JBin (JBin (JBin (JRaw ''1'') ''-'' (JVal (PyFloat b1)))
                                   ''-'' (JVal (PyFloat b3)))
                              ''*'' (JRaw ''figheight'')))
               ''+'' (JS '')'')])
          ''attr'' [JS ''width'', JRaw (''width_'' @ a)])
          ''attr'' [JS ''height'', JRaw (''height_'' @ a)])
          ''attr'' [JS ''class'', JS ''main''])
          ''call'' [JRaw (''zoom'' @ a)]),
     SExpr (JCall (JCall (JCall (JCall (JCall (JRaw (''baseaxes_'' @ a))
        ''append'' [JS ''svg:rect''])
        ''attr'' [JS ''width'', JRaw (''width_'' @ a)])
        ''attr'' [JS ''height'', JRaw (''height_'' @ a)])
        ''attr'' [JS ''class'', JS (''bg'' @ a)])
        ''attr'' [JS ''fill'', JS ''#FCFCFC'']),
     SVarFunc (''create_xAxis_'' @ a) []
       [SReturn (JCall (JCall (JRaw ''d3.svg.axis()'')
          ''scale'' [JRaw (''x_'' @ a)]) ''orient'' [JS ''bottom''])],
     SVarFunc (''create_yAxis_'' @ a) []
       [SReturn (JCall (JCall (JRaw ''d3.svg.axis()'')
          ''scale'' [JRaw (''y_'' @ a)]) ''orient'' [JS ''left''])],
     SVar (''xAxis_'' @ a) (JRaw (''create_xAxis_'' @ a @ ''()'')),
     SExpr (JCall (JCall (JCall (JCall (JRaw (''baseaxes_'' @ a))
        ''append'' [JS ''g''])
        ''attr'' [JS ''transform'',
           JBin (JBin (JS ''translate(0,'') ''+'' (JRaw (''(height_'' @ a @ '')'')))
             ''+'' (JS '')'')])
        ''attr'' [JS ''class'', JS (''axes'' @ a @ '' x axis'')])
        ''call'' [JRaw (''xAxis_'' @ a)]),
     SVar (''yAxis_'' @ a) (JRaw (''create_yAxis_'' @ a @ ''()'')),
     SExpr (JCall (JCall (JCall (JCall (JRaw (''baseaxes_'' @ a))
        ''append'' [JS ''g''])
        ''attr'' [JS ''transform'', JS ''translate(0,0)''])
        ''attr'' [JS ''class'', JS (''axes'' @ a @ '' y axis'')])
        ''call'' [JRaw (''yAxis_'' @ a)]),
     SVar (''clip_'' @ a)
       (JCall (JCall (JCall (JCall (JCall (JCall (JCall (JRaw (''baseaxes_'' @ a))
          ''append'' [JS ''svg:clipPath''])
          ''attr'' [JS ''id'', JS (''clip'' @ a)])
          ''append'' [JS ''svg:rect''])
          ''attr'' [JS ''x'', JRaw ''0''])
          ''attr'' [JS ''y'', JRaw ''0''])
          ''attr'' [JS ''width'', JRaw (''width_'' @ a)])
          ''attr'' [JS ''height'', JRaw (''height_'' @ a)]),
     SVar (''axes_'' @ a)
       (JCall (JCall (JRaw (''baseaxes_'' @ a))
          ''append'' [JS ''g''])
          ''attr'' [JS ''clip-path'', JS (''url(#clip'' @ a @ '')'')])]"
proof -
  from D3Axes_html_out [OF assms] obtain a es zs where
    a: "D3Base_axid (axes_base A) = Inr a" and
    es: "map (elem_html u) (elements A) = map Inr es" and
    zs: "map elem_zoom (elements A) = map Inr zs" and
    out: "out = AXES_TEMPLATE_head a (bounds (ax A)) (get_xlim (ax A)) (get_ylim (ax A))
                  ''#FCFCFC''
                @ concat es @ [SFunc (''zoomed'' @ a) [] (zoomed_ticks a @ concat zs)]"
    by blast
  obtain b0 b1 b2 b3 where b: "bounds (ax A) = (b0, b1, b2, b3)"
    by (cases "bounds (ax A)") auto
  let ?head = "AXES_TEMPLATE_head a (bounds (ax A)) (get_xlim (ax A)) (get_ylim (ax A))
                 ''#FCFCFC''"
  have l: "length ?head = 15" by (rule AXES_TEMPLATE_head_length)
  have d: "drop 15 out = concat es @ [SFunc (''zoomed'' @ a) [] (zoomed_ticks a @ concat zs)]"
    unfolding out using l by simp
  have t: "take 15 out = ?head"
    unfolding out using l by simp
  show ?thesis
    apply (rule exI [of _ a], rule exI [of _ es], rule exI [of _ zs])
    apply (rule exI [of _ b0], rule exI [of _ b1], rule exI [of _ b2], rule exI [of _ b3])
    apply (intro conjI)
         apply (rule a)
        apply (rule b)
       apply (rule es)
      apply (rule zs)
     apply (simp only: d zoomed_ticks_explicit append_Cons append_Nil)
    apply (simp only: t b AXES_TEMPLATE_head_explicit)
    done
qed

theorem zoomed_ticks_before_elements_witness:
  "\<exists>es zs.
     map (elem_html example_utils)
       (elements (built_axes ''f'' (D3Base (Some ''f'') None None) example_axes 1)) = map Inr es \<and>
     map elem_zoom
       (elements (built_axes ''f'' (D3Base (Some ''f'') None None) example_axes 1)) = map Inr zs \<and>
     drop 15 (AXES_TEMPLATE ''f1'' (0, 0, 1, 1) (0, 1) (0, 1) ''#FCFCFC''
       (YGRID_TEMPLATE ''f1'' @ DATA_TEMPLATE ''f11'' [(0, 0), (1/2, 1/2), (1, 1)] @
        LINE_TEMPLATE ''f11'' ''f1'')
       (YZOOM ''f1'' @ LINE_ZOOM ''f11'' ''f1''))
     = concat es @
       [SFunc ''zoomedf1'' []
          (SExpr (JCall (JCall (JRaw ''baseaxes_f1'') ''select'' [JS ''.x.axis''])
             ''call'' [JRaw ''xAxis_f1'']) #
           SExpr (JCall (JCall (JRaw ''baseaxes_f1'') ''select'' [JS ''.y.axis''])
             ''call'' [JRaw ''yAxis_f1'']) #
           concat zs)]"
proof -
  have b: "D3Base_axid (axes_base (built_axes ''f'' (D3Base (Some ''f'') None None)
             example_axes 1)) = Inr ''f1''"
    by (simp add: built_axes_def Let_def str_1 str_Suc_0)
  from zoomed_ticks_before_elements [OF example_html] obtain a es zs where
    "D3Base_axid (axes_base (built_axes ''f'' (D3Base (Some ''f'') None None)
             example_axes 1)) = Inr a"
    "map (elem_html example_utils)
       (elements (built_axes ''f'' (D3Base (Some ''f'') None None) example_axes 1)) = map Inr es"
    "map elem_zoom
       (elements (built_axes ''f'' (D3Base (Some ''f'') None None) example_axes 1)) = map Inr zs"
    "drop 15 (AXES_TEMPLATE ''f1'' (0, 0, 1, 1) (0, 1) (0, 1) ''#FCFCFC''
       (YGRID_TEMPLATE ''f1'' @ DATA_TEMPLATE ''f11'' [(0, 0), (1/2, 1/2), (1, 1)] @
        LINE_TEMPLATE ''f11'' ''f1'')
       (YZOOM ''f1'' @ LINE_ZOOM ''f11'' ''f1''))
     = concat es @
       [SFunc (''zoomed'' @ a) []
          (SExpr (JCall (JCall (JRaw (''baseaxes_'' @ a)) ''select'' [JS ''.x.axis''])
             ''call'' [JRaw (''xAxis_'' @ a)]) #
           SExpr (JCall (JCall (JRaw (''baseaxes_'' @ a)) ''select'' [JS ''.y.axis''])
             ''call'' [JRaw (''yAxis_'' @ a)]) #
           concat zs)]"
    by blast
  moreover from this(1) b have "a = ''f1''" by simp
  ultimately show ?thesis by auto
qed

subsection \<open>The order of the elements of an axes\<close>

lemma built_axes_fields:
  "axes_base (built_axes f parent a i) = D3Base None (Some (f @ str i)) (Some parent)"
  "ax (built_axes f parent a i) = a"
  "grids (built_axes f parent a i) = [D3Grid_init (D3Base None (Some (f @ str i)) (Some parent)) a]"
  "map line (lines (built_axes f parent a i)) = ax_lines a"
  "map text_obj (texts (built_axes f parent a i)) =
     ax_texts a @ [label (xaxis a), label (yaxis a), title a]"
proof -
  have "map line (lines (built_axes f parent a i)) = map (\<lambda>(k, l). l) (enumerate 0 (ax_lines a))"
    by (simp add: built_axes_def Let_def split_def comp_def)
  then show "map line (lines (built_axes f parent a i)) = ax_lines a"
    by (simp add: map_snd_enumerate)
qed (simp_all add: built_axes_def Let_def D3Text_init_def comp_def)

lemma built_elements_total:
  "list_all (\<lambda>e. \<not> isl (elem_html u e) \<and> \<not> isl (elem_zoom e))
     (elements (built_axes f parent a i))"
  unfolding list_all_iff
proof
  fix e assume e: "e \<in> set (elements (built_axes f parent a i))"
  from built_elements_html [OF e, of u] built_elements_zoom [OF e]
  show "\<not> isl (elem_html u e) \<and> \<not> isl (elem_zoom e)" by auto
qed

lemma D3Axes_html_built_drop:
  "\<exists>out. D3Axes_html u (built_axes f parent a i) = Inr out \<and>
     drop 15 out =
       concat (map (\<lambda>e. projr (elem_html u e)) (elements (built_axes f parent a i))) @
       [SFunc (''zoomed'' @ f @ str i) []
          (SExpr (JCall (JCall (JRaw (''baseaxes_'' @ f @ str i)) ''select'' [JS ''.x.axis''])
             ''call'' [JRaw (''xAxis_'' @ f @ str i)]) #
           SExpr (JCall (JCall (JRaw (''baseaxes_'' @ f @ str i)) ''select'' [JS ''.y.axis''])
             ''call'' [JRaw (''yAxis_'' @ f @ str i)]) #
           concat (map (\<lambda>e. projr (elem_zoom e)) (elements (built_axes f parent a i))))]"
  unfolding D3Axes_html_built AXES_TEMPLATE_def
  using AXES_TEMPLATE_head_length [of "f @ str i" "bounds a" "get_xlim a" "get_ylim a" "''#FCFCFC''"]
  by (simp add: zoomed_ticks_explicit)

text \<open>
  C6 (as amended).  An axes built under a parent that resolves the figure
  identifier holds: its lines, in the order of \<^verbatim>\<open>ax.lines\<close>; its texts, which are the
  annotations of \<^verbatim>\<open>ax.texts\<close> followed by the x label, the y label and the title, each
  a text element whatever its content; and exactly one grid.  The list that is drawn
  and that the zoom handler walks is the grid first, then the lines, then the texts:
  every element of that list yields its drawing and its zoom statements, and after
  the fifteen statements that set the axes up, \<^verbatim>\<open>html\<close> returns the drawings of that
  list in that order, followed by the handler whose body is the two axis re-calls
  and then the zoom statements of that list in the same order.
\<close>

theorem elements_grid_lines_texts:
  assumes "D3Base_figid parent = Inr f"
  shows "\<exists>A g out. D3Axes_init parent a i ws = (Inr A, ws @ axes_warnings a) \<and>
           grids A = [g] \<and>
           map line (lines A) = ax_lines a \<and>
           map text_obj (texts A) = ax_texts a @ [label (xaxis a), label (yaxis a), title a] \<and>
           elements A = EGrid g # map ELine (lines A) @ map EText (texts A) \<and>
           list_all (\<lambda>e. \<not> isl (elem_html u e) \<and> \<not> isl (elem_zoom e)) (elements A) \<and>
           D3Axes_html u A = Inr out \<and>
           drop 15 out =
             concat (map (\<lambda>e. projr (elem_html u e)) (elements A)) @
             [SFunc (''zoomed'' @ f @ str i) []
                (SExpr (JCall (JCall (JRaw (''baseaxes_'' @ f @ str i))
                   ''select'' [JS ''.x.axis'']) ''call'' [JRaw (''xAxis_'' @ f @ str i)]) #
                 SExpr (JCall (JCall (JRaw (''baseaxes_'' @ f @ str i))
                   ''select'' [JS ''.y.axis'']) ''call'' [JRaw (''yAxis_'' @ f @ str i)]) #
                 concat (map (\<lambda>e. projr (elem_zoom e)) (elements A)))]"
proof -
  let ?A = "built_axes f parent a i"
  have "elements ?A = EGrid (D3Grid_init (D3Base None (Some (f @ str i)) (Some parent)) a)
          # map ELine (lines ?A) @ map EText (texts ?A)"
    by (simp add: elements_def built_axes_fields)
  with D3Axes_init_built [OF assms] built_axes_fields [of f parent a i]
    built_elements_total [of u f parent a i] D3Axes_html_built_drop [of u f parent a i]
  show ?thesis by blast
qed

theorem elements_grid_lines_texts_witness:
  "\<exists>A g. D3Axes_init (D3Base (Some ''f'') None None) example_axes 1 [] = (Inr A, []) \<and>
     grids A = [g] \<and>
     map line (lines A) = [example_line] \<and>
     map text_obj (texts A) = [example_text 1 [], example_text 2 [], example_text 3 []] \<and>
     elements A = EGrid g # map ELine (lines A) @ map EText (texts A)"
proof -
  have f: "D3Base_figid (D3Base (Some ''f'') None None) = Inr ''f''" by simp
  have w: "axes_warnings example_axes = []"
    by (simp add: axes_warnings_def not_implemented_def getattr_ax_def example_axes_def)
  have e: "ax_lines example_axes = [example_line]" "ax_texts example_axes = []"
    "label (xaxis example_axes) = example_text 1 []"
    "label (yaxis example_axes) = example_text 2 []"
    "title example_axes = example_text 3 []"
    by (simp_all add: example_axes_def example_axis_def)
  from elements_grid_lines_texts [OF f, of example_axes 1 "[]" example_utils]
  show ?thesis unfolding w e by auto
qed

text \<open>
  C6 (as stated) fails: for an axes with one line, the list that is drawn and updated
  starts with the grid and ends with the title text, so the grid is first and not
  last; in the script, the first statement after the set-up draws the y grid lines
  and the data of the line is declared only after it.
\<close>

theorem grid_drawn_first_counterexample:
  "map elem_kind
     (elements (projr (fst (D3Axes_init (D3Base (Some ''f'') None None) example_axes 1 []))))
     = [''grid'', ''line'', ''text'', ''text'', ''text''] \<and>
   \<not> isl (D3Axes_html example_utils
     (projr (fst (D3Axes_init (D3Base (Some ''f'') None None) example_axes 1 [])))) \<and>
   take 2 (drop 15 (projr (D3Axes_html example_utils
     (projr (fst (D3Axes_init (D3Base (Some ''f'') None None) example_axes 1 []))))))
     = [SExpr (JCall (JCall (JCall (JRaw ''axes_f1'')
          ''append'' [JS ''g''])
          ''attr'' [JS ''class'', JS ''axesf1 y grid''])
          ''call'' [JCall (JCall (JRaw ''create_yAxis_f1()'')
             ''tickSize'' [JRaw ''-(width_f1)'', JRaw ''0'', JRaw ''0''])
             ''tickFormat'' [JS []]]),
        SVar ''data_f11'' (JData [(0, 0), (1/2, 1/2), (1, 1)])]"
proof -
  have fg: "D3Base_figid (D3Base (Some ''f'') None None) = Inr ''f''" by simp
  have h: "projr (fst (D3Axes_init (D3Base (Some ''f'') None None) example_axes 1 []))
        = built_axes ''f'' (D3Base (Some ''f'') None None) example_axes 1"
    by (simp only: D3Axes_init_built [OF fg] fst_conv sum.sel)
  have k: "map elem_kind
      (elements (built_axes ''f'' (D3Base (Some ''f'') None None) example_axes 1))
      = [''grid'', ''line'', ''text'', ''text'', ''text'']"
    unfolding example_elements by simp
  have d: "take 2 (drop 15 (AXES_TEMPLATE ''f1'' (0, 0, 1, 1) (0, 1) (0, 1) ''#FCFCFC''
            (YGRID_TEMPLATE ''f1'' @ DATA_TEMPLATE ''f11'' [(0, 0), (1/2, 1/2), (1, 1)] @
             LINE_TEMPLATE ''f11'' ''f1'')
            (YZOOM ''f1'' @ LINE_ZOOM ''f11'' ''f1'')))
     = [SExpr (JCall (JCall (JCall (JRaw ''axes_f1'')
          ''append'' [JS ''g''])
          ''attr'' [JS ''class'', JS ''axesf1 y grid''])
          ''call'' [JCall (JCall (JRaw ''create_yAxis_f1()'')
             ''tickSize'' [JRaw ''-(width_f1)'', JRaw ''0'', JRaw ''0''])
             ''tickFormat'' [JS []]]),
        SVar ''data_f11'' (JData [(0, 0), (1/2, 1/2), (1, 1)])]"
    unfolding AXES_TEMPLATE_def
    using AXES_TEMPLATE_head_length [of "''f1''" "(0, 0, 1, 1)" "(0, 1)" "(0, 1)" "''#FCFCFC''"]
    by (simp add: template_defs)
  show ?thesis
    unfolding h example_html using k d by simp
qed

subsection \<open>The style of the grid\<close>

lemma D3Grid_style_empty:
  "get_gridlines (xaxis (grid_ax g)) @ get_gridlines (yaxis (grid_ax g)) = []
     \<Longrightarrow> D3Grid_style u g = Inl IndexError"
  by (simp add: D3Grid_style_def)

lemma D3Grid_style_first:
  "get_gridlines (xaxis (grid_ax g)) @ get_gridlines (yaxis (grid_ax g)) = g0 # rest
     \<Longrightarrow> D3Base_figid (grid_base g) = Inr f
     \<Longrightarrow> D3Grid_style u g =
           Inr [Rule (''div#figure'' @ f @ '' .grid .tick'')
                  [(''stroke'', [Lit (color_to_hex u (get_color g0))]),
                   (''stroke-dasharray'', [Lit (get_dasharray u g0)]),
                   (''stroke-opacity'',
                      [Fmt (case get_alpha g0 of None \<Rightarrow> PyNone | Some x \<Rightarrow> PyFloat x)])],
                Rule (''div#figure'' @ f @ '' .grid path'')
                  [(''stroke-width'', [Lit ''0''])]]"
  by (simp add: D3Grid_style_def D3Grid_STYLE_def py_float_or_none_def)

lemma built_lines_style:
  assumes "D3Base_figid parent = Inr f"
    and "l \<in> set (lines (built_axes f parent a i))"
  shows "\<exists>y. D3Line2D_style u l = Inr y"
proof -
  from assms(2) have
    "line_base l = D3Base None None (Some (D3Base None (Some (f @ str i)) (Some parent)))"
    by (auto simp: built_axes_def Let_def)
  with assms(1) show ?thesis
    by (simp add: D3Line2D_style_def Let_def)
qed

lemma D3Axes_style_built:
  assumes "D3Base_figid parent = Inr f"
  shows "(get_gridlines (xaxis a) @ get_gridlines (yaxis a) = []
            \<and> D3Axes_style u (built_axes f parent a i) = Inl IndexError)
         \<or> (get_gridlines (xaxis a) @ get_gridlines (yaxis a) \<noteq> []
            \<and> (\<exists>css. D3Axes_style u (built_axes f parent a i) = Inr css))"
proof -
  let ?A = "built_axes f parent a i"
  let ?self = "D3Base None (Some (f @ str i)) (Some parent)"
  have b: "axes_base ?A = ?self" "grids ?A = [D3Grid_init ?self a]"
    by (simp_all add: built_axes_fields)
  have ax: "D3Base_axid ?self = Inr (f @ str i)" by simp
  have fg: "D3Base_figid ?self = Inr f" using assms by simp
  have ls: "mapM (D3Line2D_style u) (lines ?A) =
              Inr (map (\<lambda>l. projr (D3Line2D_style u l)) (lines ?A))"
    by (rule mapM_total) (rule built_lines_style [OF assms])
  have ts: "mapM D3Text_style (texts ?A) = Inr (map (\<lambda>t. []) (texts ?A))"
    by (rule mapM_Inr) (simp add: D3Text_style_def)
  have gr: "grid_ax (D3Grid_init ?self a) = a"
    "D3Base_figid (grid_base (D3Grid_init ?self a)) = Inr f"
    using assms by (simp_all add: D3Grid_init_def)
  show ?thesis
  proof (cases "get_gridlines (xaxis a) @ get_gridlines (yaxis a)")
    case Nil
    then have "D3Grid_style u (D3Grid_init ?self a) = Inl IndexError"
      using D3Grid_style_empty [of "D3Grid_init ?self a" u] gr by simp
    then have "D3Axes_style u ?A = Inl IndexError"
      using assms by (simp add: D3Axes_style_def Let_def b ax)
    with Nil show ?thesis by simp
  next
    case (Cons g0 rest)
    then obtain css where "D3Grid_style u (D3Grid_init ?self a) = Inr css"
      using D3Grid_style_first [of "D3Grid_init ?self a" g0 rest f u] gr by auto
    then have "\<exists>css. D3Axes_style u ?A = Inr css"
      using assms by (simp add: D3Axes_style_def Let_def b ax ls ts)
    with Cons show ?thesis by simp
  qed
qed

lemma D3Figure_style_fails:
  assumes "a \<in> set (fig_axes fg)"
    and "get_gridlines (xaxis a) @ get_gridlines (yaxis a) = []"
    and "axes F = map (\<lambda>(i, a). built_axes fid (D3Base (Some fid) None None) a (i + 1))
                    (enumerate 0 (fig_axes fg))"
  shows "D3Figure_style u F = Inl IndexError"
proof -
  let ?P = "D3Base (Some fid) None None"
  have P: "D3Base_figid ?P = Inr fid" by simp
  from assms(1) obtain k where k: "k < length (fig_axes fg)" "fig_axes fg ! k = a"
    by (auto simp: in_set_conv_nth)
  then have "(k, a) \<in> set (enumerate 0 (fig_axes fg))"
    by (auto simp: in_set_enumerate_eq)
  then have m: "built_axes fid ?P a (k + 1) \<in> set (axes F)"
    unfolding assms(3) by force
  have bad: "D3Axes_style u (built_axes fid ?P a (k + 1)) = Inl IndexError"
    using D3Axes_style_built [OF P, of a u "k + 1"] assms(2) by simp
  have all: "\<And>A. A \<in> set (axes F) \<Longrightarrow>
      D3Axes_style u A = Inl IndexError \<or> (\<exists>css. D3Axes_style u A = Inr css)"
  proof -
    fix A assume "A \<in> set (axes F)"
    then obtain j b where "A = built_axes fid ?P b (j + 1)"
      unfolding assms(3) by auto
    with D3Axes_style_built [OF P, of b u "j + 1"] show
      "D3Axes_style u A = Inl IndexError \<or> (\<exists>css. D3Axes_style u A = Inr css)"
      by auto
  qed
  have "mapM (D3Axes_style u) (axes F) = Inl IndexError"
    by (rule mapM_fails [where f = "D3Axes_style u", OF m bad all])
  then show ?thesis by (simp add: D3Figure_style_def)
qed

lemma D3Figure_html_fails:
  assumes "D3Figure_style u F = Inl IndexError"
    and "fig_base F = D3Base (Some fid) None None"
    and "axes F = map (\<lambda>(i, a). built_axes fid (D3Base (Some fid) None None) a (i + 1))
                    (enumerate 0 (fig_axes fg))"
  shows "D3Figure_html u F = Inl IndexError"
proof -
  have "mapM (D3Axes_html u) (axes F) = Inr (map (\<lambda>A. projr (D3Axes_html u A)) (axes F))"
  proof (rule mapM_total)
    fix A assume "A \<in> set (axes F)"
    then obtain j b where "A = built_axes fid (D3Base (Some fid) None None) b (j + 1)"
      unfolding assms(3) by auto
    then show "\<exists>y. D3Axes_html u A = Inr y"
      by (simp add: D3Axes_html_built)
  qed
  with assms(1,2) show ?thesis
    by (simp add: D3Figure_html_def)
qed

text \<open>
  C10.  The style of a grid reads the first element of the x gridlines followed by
  the y gridlines before anything else.  When that list is empty it raises
  \<^verbatim>\<open>IndexError\<close>.  When the list has a first gridline and the grid resolves the figure
  identifier, the style is the two rules written out below: the stroke is the hex
  colour of that first gridline, the dash array is that of that first gridline, and
  the opacity is its alpha (\<^verbatim>\<open>None\<close> when it has none).  When some axes of a figure
  has no gridline at all, the figure is built, and both its style and its page fail
  with \<^verbatim>\<open>IndexError\<close>.
\<close>

theorem grid_style_first_gridline:
  "(get_gridlines (xaxis (grid_ax g)) @ get_gridlines (yaxis (grid_ax g)) = []
      \<longrightarrow> D3Grid_style u g = Inl IndexError) \<and>
   (get_gridlines (xaxis (grid_ax g')) @ get_gridlines (yaxis (grid_ax g')) = g0 # rest
      \<and> D3Base_figid (grid_base g') = Inr f
      \<longrightarrow> D3Grid_style u g' =
            Inr [Rule (''div#figure'' @ f @ '' .grid .tick'')
                   [(''stroke'', [Lit (color_to_hex u (get_color g0))]),
                    (''stroke-dasharray'', [Lit (get_dasharray u g0)]),
                    (''stroke-opacity'',
                       [Fmt (case get_alpha g0 of None \<Rightarrow> PyNone | Some x \<Rightarrow> PyFloat x)])],
                 Rule (''div#figure'' @ f @ '' .grid path'')
                   [(''stroke-width'', [Lit ''0''])]]) \<and>
   ((\<exists>a \<in> set (fig_axes fg). get_gridlines (xaxis a) @ get_gridlines (yaxis a) = [])
      \<longrightarrow> (\<exists>F. fst (D3Figure_init fid fg ws) = Inr F \<and>
                D3Figure_style u F = Inl IndexError \<and>
                D3Figure_html u F = Inl IndexError))"
proof (intro conjI impI)
  assume "get_gridlines (xaxis (grid_ax g)) @ get_gridlines (yaxis (grid_ax g)) = []"
  then show "D3Grid_style u g = Inl IndexError" by (rule D3Grid_style_empty)
next
  assume "get_gridlines (xaxis (grid_ax g')) @ get_gridlines (yaxis (grid_ax g')) = g0 # rest
      \<and> D3Base_figid (grid_base g') = Inr f"
  then show "D3Grid_style u g' =
            Inr [Rule (''div#figure'' @ f @ '' .grid .tick'')
                   [(''stroke'', [Lit (color_to_hex u (get_color g0))]),
                    (''stroke-dasharray'', [Lit (get_dasharray u g0)]),
                    (''stroke-opacity'',
                       [Fmt (case get_alpha g0 of None \<Rightarrow> PyNone | Some x \<Rightarrow> PyFloat x)])],
                 Rule (''div#figure'' @ f @ '' .grid path'')
                   [(''stroke-width'', [Lit ''0''])]]"
    using D3Grid_style_first by blast
next
  assume "\<exists>a \<in> set (fig_axes fg). get_gridlines (xaxis a) @ get_gridlines (yaxis a) = []"
  then obtain a where a: "a \<in> set (fig_axes fg)"
    "get_gridlines (xaxis a) @ get_gridlines (yaxis a) = []" by blast
  let ?F = "\<lparr> fig_base = D3Base (Some fid) None None, fig = fg,
              axes = map (\<lambda>(i, a). built_axes fid (D3Base (Some fid) None None) a (i + 1))
                       (enumerate 0 (fig_axes fg)) \<rparr>"
  have i: "fst (D3Figure_init fid fg ws) = Inr ?F"
    by (simp add: D3Figure_init_built)
  have s: "D3Figure_style u ?F = Inl IndexError"
    by (rule D3Figure_style_fails [OF a, where fid = fid]) simp
  have h: "D3Figure_html u ?F = Inl IndexError"
    by (rule D3Figure_html_fails [OF s, where fid = fid and fg = fg]) simp_all
  from i s h show "\<exists>F. fst (D3Figure_init fid fg ws) = Inr F \<and>
                D3Figure_style u F = Inl IndexError \<and>
                D3Figure_html u F = Inl IndexError"
    by blast
qed

theorem grid_style_first_gridline_witness:
  "D3Grid_style example_utils
     (D3Grid_init (D3Base (Some ''f'') None None)
        (example_axes\<lparr>xaxis := example_axis 1 False [], yaxis := example_axis 2 True []\<rparr>))
     = Inl IndexError \<and>
   D3Grid_style example_utils (D3Grid_init (D3Base (Some ''f'') None None) example_axes)
     = Inr [Rule ''div#figuref .grid .tick''
              [(''stroke'', [Lit ''#000000'']),
               (''stroke-dasharray'', [Lit ''10,0'']),
               (''stroke-opacity'', [Fmt PyNone])],
            Rule ''div#figuref .grid path''
              [(''stroke-width'', [Lit ''0''])]] \<and>
   (\<exists>F. fst (D3Figure_init ''f''
             (example_figure
                [example_axes\<lparr>xaxis := example_axis 1 False [],
                               yaxis := example_axis 2 True []\<rparr>]) []) = Inr F \<and>
        D3Figure_style example_utils F = Inl IndexError \<and>
        D3Figure_html example_utils F = Inl IndexError)"
proof -
  let ?P = "D3Base (Some ''f'') None None"
  let ?n = "example_axes\<lparr>xaxis := example_axis 1 False [], yaxis := example_axis 2 True []\<rparr>"
  note t = grid_style_first_gridline [where g = "D3Grid_init ?P ?n" and u = example_utils
      and g' = "D3Grid_init ?P example_axes" and ?g0.0 = example_line
      and rest = "[example_line]" and f = "''f''" and fg = "example_figure [?n]"
      and fid = "''f''" and ws = "[]"]
  have h1: "get_gridlines (xaxis (grid_ax (D3Grid_init ?P ?n))) @
            get_gridlines (yaxis (grid_ax (D3Grid_init ?P ?n))) = []"
    by (simp add: D3Grid_init_def example_axes_def example_axis_def)
  have h2: "get_gridlines (xaxis (grid_ax (D3Grid_init ?P example_axes))) @
            get_gridlines (yaxis (grid_ax (D3Grid_init ?P example_axes)))
              = example_line # [example_line]
            \<and> D3Base_figid (grid_base (D3Grid_init ?P example_axes)) = Inr ''f''"
    by (simp add: D3Grid_init_def example_axes_def example_axis_def)
  have h3: "\<exists>a \<in> set (fig_axes (example_figure [?n])).
              get_gridlines (xaxis a) @ get_gridlines (yaxis a) = []"
    by (simp add: example_figure_def example_axes_def example_axis_def)
  have c: "color_to_hex example_utils (get_color example_line) = ''#000000''"
    "get_dasharray example_utils example_line = ''10,0''"
    "get_alpha example_line = None"
    by (simp_all add: example_utils_def example_line_def)
  from t h1 h2 h3 show ?thesis
    unfolding c by simp
qed

subsection \<open>A degenerate domain\<close>

lemma map_ax_built:
  "map ax (map (\<lambda>(i, a). built_axes f parent a (i + 1)) (enumerate n xs)) = xs"
  by (induction xs arbitrary: n) (simp_all add: built_axes_fields)

lemma D3Axes_html_built_scales:
  "\<exists>out. D3Axes_html u (built_axes f parent a i) = Inr out \<and>
     out ! 2 = SVar (''x_'' @ f @ str i)
       (JCall (JCall (JRaw ''d3.scale.linear()'')
          ''domain'' [JArr [JVal (PyFloat (fst (get_xlim a))), JVal (PyFloat (snd (get_xlim a)))]])
          ''range'' [JArr [JRaw ''0'', JRaw (''width_'' @ f @ str i)]]) \<and>
     out ! 3 = SVar (''y_'' @ f @ str i)
       (JCall (JCall (JRaw ''d3.scale.linear()'')
          ''domain'' [JArr [JVal (PyFloat (fst (get_ylim a))), JVal (PyFloat (snd (get_ylim a)))]])
          ''range'' [JArr [JRaw (''height_'' @ f @ str i), JRaw ''0'']])"
proof -
  obtain b0 b1 b2 b3 where b: "bounds a = (b0, b1, b2, b3)"
    by (cases "bounds a") auto
  show ?thesis
    unfolding D3Axes_html_built AXES_TEMPLATE_def b AXES_TEMPLATE_head_explicit
    by simp
qed

text \<open>
  C1 (as amended).  The domain of an axes is never examined.  Whatever the x and y
  limits of an axes are, equal ends included, an axes built under a parent that
  resolves the figure identifier is built, its script is generated, and the third and
  fourth statements of the script declare the linear scales \<^verbatim>\<open>x_{axid}\<close> and
  \<^verbatim>\<open>y_{axid}\<close> with exactly the limits as their domain.  The construction of a figure
  returns a figure with one axes object for each axes, in order, and never an error.
\<close>

theorem domain_emitted_unchecked:
  assumes "D3Base_figid parent = Inr f"
  shows "\<exists>A out. D3Axes_init parent a i ws = (Inr A, ws @ axes_warnings a) \<and>
           D3Axes_html u A = Inr out \<and>
           out ! 2 = SVar (''x_'' @ f @ str i)
             (JCall (JCall (JRaw ''d3.scale.linear()'')
                ''domain'' [JArr [JVal (PyFloat (fst (get_xlim a))),
                                  JVal (PyFloat (snd (get_xlim a)))]])
                ''range'' [JArr [JRaw ''0'', JRaw (''width_'' @ f @ str i)]]) \<and>
           out ! 3 = SVar (''y_'' @ f @ str i)
             (JCall (JCall (JRaw ''d3.scale.linear()'')
                ''domain'' [JArr [JVal (PyFloat (fst (get_ylim a))),
                                  JVal (PyFloat (snd (get_ylim a)))]])
                ''range'' [JArr [JRaw (''height_'' @ f @ str i), JRaw ''0'']]) \<and>
           (\<exists>F. D3Figure_init fid fg ws' =
                   (Inr F, ws' @ concat (map axes_warnings (fig_axes fg))) \<and>
                map ax (axes F) = fig_axes fg)"
proof -
  let ?F = "\<lparr> fig_base = D3Base (Some fid) None None, fig = fg,
              axes = map (\<lambda>(i, a). built_axes fid (D3Base (Some fid) None None) a (i + 1))
                       (enumerate 0 (fig_axes fg)) \<rparr>"
  have "D3Figure_init fid fg ws' = (Inr ?F, ws' @ concat (map axes_warnings (fig_axes fg)))"
    by (rule D3Figure_init_built)
  moreover have "map ax (axes ?F) = fig_axes fg"
    by (simp only: D3Figure.select_convs map_ax_built)
  ultimately have "\<exists>F. D3Figure_init fid fg ws' =
               (Inr F, ws' @ concat (map axes_warnings (fig_axes fg))) \<and>
            map ax (axes F) = fig_axes fg"
    by blast
  with D3Axes_init_built [OF assms, of a i ws] D3Axes_html_built_scales [of u f parent a i]
  show ?thesis by blast
qed

theorem domain_emitted_unchecked_witness:
  "\<exists>A out. D3Axes_init (D3Base (Some ''f'') None None)
              (example_axes\<lparr>get_ylim := (2, 2)\<rparr>) 1 [] = (Inr A, []) \<and>
     D3Axes_html example_utils A = Inr out \<and>
     out ! 3 = SVar ''y_f1''
       (JCall (JCall (JRaw ''d3.scale.linear()'')
          ''domain'' [JArr [JVal (PyFloat 2), JVal (PyFloat 2)]])
          ''range'' [JArr [JRaw ''height_f1'', JRaw ''0'']])"
proof -
  have f: "D3Base_figid (D3Base (Some ''f'') None None) = Inr ''f''" by simp
  have w: "axes_warnings (example_axes\<lparr>get_ylim := (2, 2)\<rparr>) = []"
    by (simp add: axes_warnings_def not_implemented_def getattr_ax_def example_axes_def)
  have y: "get_ylim (example_axes\<lparr>get_ylim := (2, 2)\<rparr>) = (2, 2)" by simp
  note t = domain_emitted_unchecked [OF f, where a = "example_axes\<lparr>get_ylim := (2, 2)\<rparr>"
      and i = 1 and ws = "[]" and u = example_utils and fid = "''f''"
      and fg = "example_figure []" and ws' = "[]"]
  from t show ?thesis
    unfolding w y str_1
    by (elim exE conjE) (intro exI conjI; simp)
qed

text \<open>
  C1 (as stated) fails: a figure whose only axes has the x limits 1 and 1 is built
  without error, the script of the axes is generated and declares the scale
  \<^verbatim>\<open>x_f1\<close> with the domain \<^verbatim>\<open>[1, 1]\<close>, and the page of the figure is generated.
\<close>

theorem degenerate_domain_counterexample:
  "\<not> isl (fst (D3Figure_init ''f'' (example_figure [example_axes\<lparr>get_xlim := (1, 1)\<rparr>]) [])) \<and>
   \<not> isl (D3Axes_html example_utils
     (hd (axes (projr (fst (D3Figure_init ''f''
        (example_figure [example_axes\<lparr>get_xlim := (1, 1)\<rparr>]) [])))))) \<and>
   projr (D3Axes_html example_utils
     (hd (axes (projr (fst (D3Figure_init ''f''
        (example_figure [example_axes\<lparr>get_xlim := (1, 1)\<rparr>]) [])))))) ! 2
     = SVar ''x_f1''
         (JCall (JCall (JRaw ''d3.scale.linear()'')
            ''domain'' [JArr [JVal (PyFloat 1), JVal (PyFloat 1)]])
            ''range'' [JArr [JRaw ''0'', JRaw ''width_f1'']]) \<and>
   \<not> isl (D3Figure_html example_utils
     (projr (fst (D3Figure_init ''f''
        (example_figure [example_axes\<lparr>get_xlim := (1, 1)\<rparr>]) []))))"
proof -
  let ?P = "D3Base (Some ''f'') None None"
  let ?d = "example_axes\<lparr>get_xlim := (1, 1)\<rparr>"
  let ?A = "built_axes ''f'' ?P ?d (Suc 0)"
  let ?F = "\<lparr> fig_base = ?P, fig = example_figure [?d], axes = [?A] \<rparr>"
  have P: "D3Base_figid ?P = Inr ''f''" by simp
  have F: "D3Figure_init ''f'' (example_figure [?d]) [] =
             (Inr ?F, concat (map axes_warnings (fig_axes (example_figure [?d]))))"
    unfolding D3Figure_init_built by (simp add: example_figure_def)
  have pF: "projr (fst (D3Figure_init ''f'' (example_figure [?d]) [])) = ?F"
    by (simp only: F fst_conv sum.sel)
  have hA: "hd (axes ?F) = ?A" by simp
  from D3Axes_html_built_scales [of example_utils "''f''" ?P ?d "Suc 0"]
  obtain out where out: "D3Axes_html example_utils ?A = Inr out"
    and o2: "out ! 2 = SVar (''x_'' @ ''f'' @ str (Suc 0))
       (JCall (JCall (JRaw ''d3.scale.linear()'')
          ''domain'' [JArr [JVal (PyFloat (fst (get_xlim ?d))),
                            JVal (PyFloat (snd (get_xlim ?d)))]])
          ''range'' [JArr [JRaw ''0'', JRaw (''width_'' @ ''f'' @ str (Suc 0))]])"
    by blast
  have g: "get_gridlines (xaxis ?d) @ get_gridlines (yaxis ?d) \<noteq> []"
    by (simp add: example_axes_def example_axis_def)
  with D3Axes_style_built [OF P, of ?d example_utils "Suc 0"]
  obtain css where css: "D3Axes_style example_utils ?A = Inr css" by auto
  have page: "\<not> isl (D3Figure_html example_utils ?F)"
    by (simp add: D3Figure_html_def D3Figure_style_def out css)
  have 1: "\<not> isl (fst (D3Figure_init ''f'' (example_figure [?d]) []))"
    by (simp only: F fst_conv sum.disc simp_thms)
  have 2: "\<not> isl (D3Axes_html example_utils ?A)" by (simp add: out)
  have 3: "projr (D3Axes_html example_utils ?A) ! 2 = SVar ''x_f1''
         (JCall (JCall (JRaw ''d3.scale.linear()'')
            ''domain'' [JArr [JVal (PyFloat 1), JVal (PyFloat 1)]])
            ''range'' [JArr [JRaw ''0'', JRaw ''width_f1'']])"
    using o2 by (simp add: out str_1 str_Suc_0)
  show ?thesis
    unfolding pF hA using 1 2 3 page by blast
qed

subsection \<open>Identifiers\<close>







subsection \<open>Children that are not drawn\<close>

lemma axes_warnings_explicit:
  "axes_warnings a =
     (if images a \<noteq> [] then [''images not implemented.  Elements will be ignored''] else []) @
     (if collections a \<noteq> []
      then [''collections not implemented.  Elements will be ignored''] else []) @
     (if containers a \<noteq> []
      then [''containers not implemented.  Elements will be ignored''] else []) @
     (if artists a \<noteq> [] then [''artists not implemented.  Elements will be ignored''] else []) @
     (if patches a \<noteq> [] then [''patches not implemented.  Elements will be ignored''] else []) @
     (if tables a \<noteq> [] then [''tables not implemented.  Elements will be ignored''] else []) @
     (if legend a \<noteq> None then [''legend is not implemented: it will be ignored''] else [])"
  by (simp add: axes_warnings_def not_implemented_def getattr_ax_def)

lemma built_axes_contents:
  "map (\<lambda>A. (map line (lines A), map text_obj (texts A), length (grids A)))
     (map (\<lambda>(i, a). built_axes f parent a (i + 1)) (enumerate n xs)) =
   map (\<lambda>a. (ax_lines a, ax_texts a @ [label (xaxis a), label (yaxis a), title a], 1)) xs"
  by (induction xs arbitrary: n) (simp_all add: built_axes_fields)

text \<open>
  C5 (as amended).  The construction of a figure never fails on account of a child
  that is not drawn.  It returns the figure, and for every axes the lines and the
  texts of the axes object are those of \<^verbatim>\<open>ax.lines\<close> and of \<^verbatim>\<open>ax.texts\<close> with the two
  labels and the title, with one grid, whatever other children the axes has.  What is
  reported goes to the warning channel of the process: the messages of the axes, in
  order, are appended to the messages already issued.  For one axes they are one
  message for each of \<^verbatim>\<open>images\<close>, \<^verbatim>\<open>collections\<close>, \<^verbatim>\<open>containers\<close>, \<^verbatim>\<open>artists\<close>, \<^verbatim>\<open>patches\<close> and
  \<^verbatim>\<open>tables\<close> that is not empty, in this order and naming the kind, and then one
  message when there is a legend.
\<close>

theorem unsupported_children_warned:
  "(\<exists>F. D3Figure_init fid fg ws = (Inr F, ws @ concat (map axes_warnings (fig_axes fg))) \<and>
      map (\<lambda>A. (map line (lines A), map text_obj (texts A), length (grids A))) (axes F) =
        map (\<lambda>a. (ax_lines a, ax_texts a @ [label (xaxis a), label (yaxis a), title a], 1))
          (fig_axes fg)) \<and>
   axes_warnings a =
     (if images a \<noteq> [] then [''images not implemented.  Elements will be ignored''] else []) @
     (if collections a \<noteq> []
      then [''collections not implemented.  Elements will be ignored''] else []) @
     (if containers a \<noteq> []
      then [''containers not implemented.  Elements will be ignored''] else []) @
     (if artists a \<noteq> [] then [''artists not implemented.  Elements will be ignored''] else []) @
     (if patches a \<noteq> [] then [''patches not implemented.  Elements will be ignored''] else []) @
     (if tables a \<noteq> [] then [''tables not implemented.  Elements will be ignored''] else []) @
     (if legend a \<noteq> None then [''legend is not implemented: it will be ignored''] else [])"
proof -
  let ?P = "D3Base (Some fid) None None"
  let ?F = "\<lparr> fig_base = ?P, fig = fg,
              axes = map (\<lambda>(i, a). built_axes fid ?P a (i + 1)) (enumerate 0 (fig_axes fg)) \<rparr>"
  have 0: "D3Figure_init fid fg ws = (Inr ?F, ws @ concat (map axes_warnings (fig_axes fg)))"
    by (rule D3Figure_init_built)
  have 1: "map (\<lambda>A. (map line (lines A), map text_obj (texts A), length (grids A))) (axes ?F) =
        map (\<lambda>a. (ax_lines a, ax_texts a @ [label (xaxis a), label (yaxis a), title a], 1))
          (fig_axes fg)"
    by (simp only: D3Figure.select_convs built_axes_contents)
  from 0 1 have "\<exists>F. D3Figure_init fid fg ws =
        (Inr F, ws @ concat (map axes_warnings (fig_axes fg))) \<and>
      map (\<lambda>A. (map line (lines A), map text_obj (texts A), length (grids A))) (axes F) =
        map (\<lambda>a. (ax_lines a, ax_texts a @ [label (xaxis a), label (yaxis a), title a], 1))
          (fig_axes fg)"
    by blast
  with axes_warnings_explicit [of a] show ?thesis by (rule conjI [rotated])
qed

text \<open>
  C5 (as stated) fails: for an axes with one image, the figure that the construction
  returns is the object written out below, made of the identifiers, the source
  objects, the lines, the texts and the grid, with no list of diagnostics in it; the
  one diagnostic is a message added to the warning channel.
\<close>

theorem warning_side_channel_counterexample:
  "D3Figure_init ''f'' (example_figure [example_axes\<lparr>images := [Artist ''image'']\<rparr>]) [] =
     (Inr \<lparr> fig_base = D3Base (Some ''f'') None None,
            fig = example_figure [example_axes\<lparr>images := [Artist ''image'']\<rparr>],
            axes =
              [\<lparr> axes_base = D3Base None (Some ''f1'') (Some (D3Base (Some ''f'') None None)),
                 ax = example_axes\<lparr>images := [Artist ''image'']\<rparr>,
                 lines =
                   [\<lparr> line_base = D3Base None None
                        (Some (D3Base None (Some ''f1'') (Some (D3Base (Some ''f'') None None)))),
                      line = example_line, lineid = ''f11'' \<rparr>],
                 texts =
                   [\<lparr> text_base = D3Base None None
                        (Some (D3Base None (Some ''f1'') (Some (D3Base (Some ''f'') None None)))),
                      text_ax = example_axes\<lparr>images := [Artist ''image'']\<rparr>,
                      text_obj = example_text 1 [] \<rparr>,
                    \<lparr> text_base = D3Base None None
                        (Some (D3Base None (Some ''f1'') (Some (D3Base (Some ''f'') None None)))),
                      text_ax = example_axes\<lparr>images := [Artist ''image'']\<rparr>,
                      text_obj = example_text 2 [] \<rparr>,
                    \<lparr> text_base = D3Base None None
                        (Some (D3Base None (Some ''f1'') (Some (D3Base (Some ''f'') None None)))),
                      text_ax = example_axes\<lparr>images := [Artist ''image'']\<rparr>,
                      text_obj = example_text 3 [] \<rparr>],
                 grids =
                   [\<lparr> grid_base = D3Base None None
                        (Some (D3Base None (Some ''f1'') (Some (D3Base (Some ''f'') None None)))),
                      grid_ax = example_axes\<lparr>images := [Artist ''image'']\<rparr> \<rparr>] \<rparr>] \<rparr>,
      [''images not implemented.  Elements will be ignored''])"
  unfolding D3Figure_init_built
  by (simp add: example_figure_def built_axes_def Let_def D3Grid_init_def D3Text_init_def
        axes_warnings_def not_implemented_def getattr_ax_def example_axes_def example_axis_def
        str_1 str_Suc_0)

subsection \<open>Line and marker presence\<close>

text \<open>
  C3 (as amended).  \<^verbatim>\<open>has_line\<close> is false exactly when the line style is one of
  the five listed values: the empty string, the single space, the two spellings
  \<^verbatim>\<open>'None'\<close> and \<^verbatim>\<open>'none'\<close>, or Python's \<^verbatim>\<open>None\<close>; \<^verbatim>\<open>has_points\<close> applies the same
  list to the marker.  No other spelling or whitespace string is in the list.
\<close>

theorem has_line_has_points_exact:
  "(has_line self \<longleftrightarrow>
      get_linestyle (line self) \<noteq> Some '''' \<and> get_linestyle (line self) \<noteq> Some '' '' \<and>
      get_linestyle (line self) \<noteq> Some ''None'' \<and> get_linestyle (line self) \<noteq> Some ''none'' \<and>
      get_linestyle (line self) \<noteq> None) \<and>
   (has_points self \<longleftrightarrow>
      get_marker (line self) \<noteq> Some '''' \<and> get_marker (line self) \<noteq> Some '' '' \<and>
      get_marker (line self) \<noteq> Some ''None'' \<and> get_marker (line self) \<noteq> Some ''none'' \<and>
      get_marker (line self) \<noteq> None)"
  by (simp add: has_line_def has_points_def absent_tokens_def)

text \<open>
  C3 (as stated) fails: the upper-case spelling \<^verbatim>\<open>'NONE'\<close> and a string of two
  spaces are not in the list, so a line with either style still has a stroke, and a
  line with either marker still has points.
\<close>

theorem has_line_upper_none_counterexample:
  "has_line \<lparr> line_base = D3Base None None None,
       line = example_line\<lparr>get_linestyle := Some ''NONE''\<rparr>, lineid = ''f11'' \<rparr> \<and>
   has_line \<lparr> line_base = D3Base None None None,
       line = example_line\<lparr>get_linestyle := Some ''  ''\<rparr>, lineid = ''f11'' \<rparr> \<and>
   has_points \<lparr> line_base = D3Base None None None,
       line = example_line\<lparr>get_marker := Some ''NONE''\<rparr>, lineid = ''f11'' \<rparr>"
  by (simp add: has_line_def has_points_def absent_tokens_def)

end
